theory Spec2Isabelle
  imports Main "HOL-Library.Multiset" "HOL-Library.Sublist"
begin

section \<open>Data model (src/lib/api.ts)\<close>

text \<open>
  The \<^verbatim>\<open>Tweet\<close> interface, field by field.  The engagement counters are JavaScript
  numbers that come from JSON; they are modelled as integers, which keeps the order
  and the sign of a difference of two counters (no NaN, no infinities).
\<close>

record metrics =
  likes :: int
  retweets :: int
  replies :: int
  quotes :: int
  impressions :: int
  bookmarks :: int

record tweet =
  tweet_id :: string
  tweet_text :: string
  author_id :: string
  username :: string
  name :: string
  created_at :: string
  conversation_id :: string
  metrics :: metrics
  urls :: "string list"
  mentions :: "string list"
  hashtags :: "string list"
  tweet_url :: string

text \<open>The metric names \<^verbatim>\<open>sortBy\<close> accepts: "likes" | "impressions" | "retweets" | "replies".\<close>

datatype metric = Likes | Impressions | Retweets | Replies

fun metric_of :: "metric \<Rightarrow> tweet \<Rightarrow> int" where
  "metric_of Likes t = likes (metrics t)"
| "metric_of Impressions t = impressions (metrics t)"
| "metric_of Retweets t = retweets (metrics t)"
| "metric_of Replies t = replies (metrics t)"

text \<open>
  What the code throws: the missing API key, the two errors \<^verbatim>\<open>apiGet\<close> makes of an
  HTTP status (429, and any other status that is not a success, with the status and
  the start of the body), a rejected request, a body that is not JSON, the TypeError
  of the language, and the error \<^verbatim>\<open>profile\<close> throws for an unknown user.
\<close>

datatype error =
    ConfigError
  | RateLimited
  | HttpError nat string
  | NetworkError
  | TypeError
  | SyntaxError
  | UserNotFound string

section \<open>Record transform utilities\<close>

subsection \<open>sortBy\<close>

text \<open>
  \<^verbatim>\<open>[...tweets].sort((a, b) => b.metrics[metric] - a.metrics[metric])\<close>.
  The comparator is the source's.  \<^verbatim>\<open>Array.prototype.sort\<close> is a built-in: since
  ES2019 it is a stable sort that puts \<open>a\<close> before \<open>b\<close> when the comparator is
  negative.  It is modelled by the stable insertion sort \<open>js_sort\<close>, which inserts
  an element in front of the first one it does not have to follow.
\<close>

definition by_metric_desc :: "metric \<Rightarrow> tweet \<Rightarrow> tweet \<Rightarrow> int" where
  "by_metric_desc m a b = metric_of m b - metric_of m a"

fun js_insert :: "('a \<Rightarrow> 'a \<Rightarrow> int) \<Rightarrow> 'a \<Rightarrow> 'a list \<Rightarrow> 'a list" where
  "js_insert cmp x [] = [x]"
| "js_insert cmp x (y # ys) = (if cmp x y \<le> 0 then x # y # ys else y # js_insert cmp x ys)"

fun js_sort :: "('a \<Rightarrow> 'a \<Rightarrow> int) \<Rightarrow> 'a list \<Rightarrow> 'a list" where
  "js_sort cmp [] = []"
| "js_sort cmp (x # xs) = js_insert cmp x (js_sort cmp xs)"

definition sortBy :: "tweet list \<Rightarrow> metric \<Rightarrow> tweet list" where
  "sortBy tweets m = js_sort (by_metric_desc m) tweets"

text \<open>
  The same function on a store of array objects, to say what is and is not written:
  an array reference is an index into the store, the spread \<^verbatim>\<open>[...tweets]\<close>
  allocates a new array with the same elements (it raises a TypeError when the
  argument is not iterable, here: not a live reference), and \<^verbatim>\<open>sort\<close> sorts the array
  it is called on in place and returns that same reference.
\<close>

type_synonym array_store = "tweet list list"

definition spread_copy :: "array_store \<Rightarrow> nat \<Rightarrow> error + (array_store \<times> nat)" where
  "spread_copy h a = (if a < length h then Inr (h @ [h ! a], length h) else Inl TypeError)"

definition sort_in_place :: "(tweet \<Rightarrow> tweet \<Rightarrow> int) \<Rightarrow> array_store \<Rightarrow> nat \<Rightarrow> array_store \<times> nat" where
  "sort_in_place cmp h r = (h[r := js_sort cmp (h ! r)], r)"

definition sortBy_store :: "array_store \<Rightarrow> nat \<Rightarrow> metric \<Rightarrow> error + (array_store \<times> nat)" where
  "sortBy_store h a m =
     (case spread_copy h a of
        Inl e \<Rightarrow> Inl e
      | Inr (h1, c) \<Rightarrow> Inr (sort_in_place (by_metric_desc m) h1 c))"

subsection \<open>dedupe\<close>

text \<open>
  \<^verbatim>\<open>const seen = new Set<string>(); return tweets.filter(t => { if (seen.has(t.id)) return false;
  seen.add(t.id); return true; })\<close>: the filter visits the elements from left to right
  and the callback updates \<open>seen\<close>; \<open>dedupe_from\<close> is that traversal with the set
  passed along.
\<close>

fun dedupe_from :: "string set \<Rightarrow> tweet list \<Rightarrow> tweet list" where
  "dedupe_from seen [] = []"
| "dedupe_from seen (t # ts) =
     (if tweet_id t \<in> seen then dedupe_from seen ts
      else t # dedupe_from (insert (tweet_id t) seen) ts)"

definition dedupe :: "tweet list \<Rightarrow> tweet list" where
  "dedupe tweets = dedupe_from {} tweets"

section \<open>JSON values and JavaScript coercions\<close>

text \<open>
  What \<^verbatim>\<open>res.json()\<close> returns is typed \<^verbatim>\<open>any\<close>.  \<open>JUndefined\<close> is the value of a
  property that is not there.  JSON numbers are modelled as integers: the code only
  asks whether a number of the response is zero.
\<close>

datatype json =
    JUndefined
  | JNull
  | JBool bool
  | JNum int
  | JStr string
  | JArr "json list"
  | JObj "(string \<times> json) list"

fun truthy :: "json \<Rightarrow> bool" where
  "truthy JUndefined = False"
| "truthy JNull = False"
| "truthy (JBool b) = b"
| "truthy (JNum n) = (n \<noteq> 0)"
| "truthy (JStr s) = (s \<noteq> [])"
| "truthy (JArr xs) = True"
| "truthy (JObj kvs) = True"

fun is_array :: "json \<Rightarrow> bool" where
  "is_array (JArr xs) = True"
| "is_array v = False"

text \<open>
  Reading a property, \<^verbatim>\<open>v.k\<close>: a TypeError on \<^verbatim>\<open>null\<close> and \<^verbatim>\<open>undefined\<close>, the
  property's value on an object, \<^verbatim>\<open>undefined\<close> when it has none.  The names read by
  this code (tweets, replies, has_next_page, next_cursor, data, status, userName,
  ...) are not properties of a boolean, a number, a string or an array.
\<close>

fun get_prop :: "json \<Rightarrow> string \<Rightarrow> error + json" where
  "get_prop JUndefined k = Inl TypeError"
| "get_prop JNull k = Inl TypeError"
| "get_prop (JObj kvs) k = Inr (case map_of kvs k of None \<Rightarrow> JUndefined | Some v \<Rightarrow> v)"
| "get_prop v k = Inr JUndefined"

text \<open>\<^verbatim>\<open>a || b\<close> on values, and on an optional numeric option with a numeric default.\<close>

definition js_or :: "json \<Rightarrow> json \<Rightarrow> json" where
  "js_or a b = (if truthy a then a else b)"

definition num_or :: "int option \<Rightarrow> int \<Rightarrow> int" where
  "num_or v d = (case v of None \<Rightarrow> d | Some n \<Rightarrow> if n = 0 then d else n)"

text \<open>
  \<^verbatim>\<open>xs.slice(0, n)\<close> for an integer \<open>n\<close>: the first \<open>n\<close> elements, and for a negative
  \<open>n\<close> all but the last \<open>-n\<close>.
\<close>

definition slice0 :: "'a list \<Rightarrow> int \<Rightarrow> 'a list" where
  "slice0 xs n = (if 0 \<le> n then take (nat n) xs else take (nat (int (length xs) + n)) xs)"

text \<open>\<^verbatim>\<open>s.includes(sub)\<close>.\<close>

fun str_includes :: "string \<Rightarrow> string \<Rightarrow> bool" where
  "str_includes [] sub = (sub = [])"
| "str_includes (c # cs) sub = (prefix sub (c # cs) \<or> str_includes cs sub)"

section \<open>The environment: credentials, HTTP, clock, dates, normalisation\<close>

text \<open>
  Everything outside the program is a parameter of the model.  \<open>'w\<close> is the state of
  the outside world (the remote service, the clock).
  \<^item> \<open>getApiKey\<close>: the result of the credential lookup (\<open>None\<close>: it throws);
  \<^item> \<open>fetch\<close>: one HTTP GET for an endpoint path, its query parameters and the key
    (\<open>None\<close>: the request is rejected); the serialisation of the parameters into a
    URL is not modelled;
  \<^item> \<open>sleep_world\<close>: what waiting does to the world; \<open>Date_now\<close>: \<^verbatim>\<open>Date.now()\<close>;
  \<^item> \<open>Date_parse\<close>: the time value of \<^verbatim>\<open>new Date(string)\<close>, \<open>None\<close> for NaN;
  \<^item> the UTC getters of a valid \<^verbatim>\<open>Date\<close>;
  \<^item> \<open>parseTweet\<close>: the normalisation of one raw record, which may raise.  It stands
    for the source's function of that name, which is not unfolded here: no property
    below depends on how a record is normalised, and each is proved for every
    normalisation.
\<close>

record http_response =
  status :: nat
  body_text :: string
  body_json :: "json option"

type_synonym params = "(string \<times> json) list"

record 'w env =
  getApiKey :: "'w \<Rightarrow> string option"
  fetch :: "string \<Rightarrow> params \<Rightarrow> string \<Rightarrow> 'w \<Rightarrow> http_response option \<times> 'w"
  sleep_world :: "nat \<Rightarrow> 'w \<Rightarrow> 'w"
  Date_now :: "'w \<Rightarrow> int"
  Date_parse :: "string \<Rightarrow> int option"
  getUTCFullYear :: "int \<Rightarrow> int"
  getUTCMonth :: "int \<Rightarrow> int"
  getUTCDate :: "int \<Rightarrow> int"
  getUTCHours :: "int \<Rightarrow> int"
  getUTCMinutes :: "int \<Rightarrow> int"
  getUTCSeconds :: "int \<Rightarrow> int"
  parseTweet :: "json \<Rightarrow> error + tweet"

text \<open>
  The program state: the world and the log of what the program did to it, oldest
  first.  A \<open>Call\<close> is one invocation of \<^verbatim>\<open>apiGet\<close> with its outcome, a \<open>Sleep\<close> one
  \<^verbatim>\<open>await sleep(ms)\<close>.
\<close>

datatype event = Call string params "error + json" | Sleep nat

record 'w state =
  world :: 'w
  trace :: "event list"

definition RATE_DELAY_MS :: nat where
  "RATE_DELAY_MS = 200"

definition sleep :: "'w env \<Rightarrow> nat \<Rightarrow> 'w state \<Rightarrow> 'w state" where
  "sleep env ms s = \<lparr>world = sleep_world env ms (world s), trace = trace s @ [Sleep ms]\<rparr>"

section \<open>Transport\<close>

text \<open>
  \<^verbatim>\<open>apiGet\<close>: the key lookup throws when there is no key; status 429 and every other
  status outside 200..299 throw, the latter with the first 200 characters of the body;
  otherwise the parsed body is returned (\<^verbatim>\<open>res.json()\<close> rejects when the body is not
  JSON).
\<close>

definition apiGet_outcome :: "'w env \<Rightarrow> string \<Rightarrow> params \<Rightarrow> 'w \<Rightarrow> (error + json) \<times> 'w" where
  "apiGet_outcome env path ps w =
     (case getApiKey env w of
        None \<Rightarrow> (Inl ConfigError, w)
      | Some apiKey \<Rightarrow>
          (case fetch env path ps apiKey w of
             (None, w1) \<Rightarrow> (Inl NetworkError, w1)
           | (Some res, w1) \<Rightarrow>
               if status res = 429 then (Inl RateLimited, w1)
               else if \<not> (200 \<le> status res \<and> status res \<le> 299)
                 then (Inl (HttpError (status res) (take 200 (body_text res))), w1)
               else (case body_json res of
                       None \<Rightarrow> (Inl SyntaxError, w1)
                     | Some j \<Rightarrow> (Inr j, w1))))"

definition apiGet :: "'w env \<Rightarrow> string \<Rightarrow> params \<Rightarrow> 'w state \<Rightarrow> (error + json) \<times> 'w state" where
  "apiGet env path ps s =
     (case apiGet_outcome env path ps (world s) of
        (r, w1) \<Rightarrow> (r, \<lparr>world = w1, trace = trace s @ [Call path ps r]\<rparr>))"

section \<open>Parsing a page\<close>

text \<open>\<^verbatim>\<open>rawTweets.map(parseTweet)\<close>: the first element that raises ends the map.\<close>

fun map_result :: "('a \<Rightarrow> error + 'b) \<Rightarrow> 'a list \<Rightarrow> error + 'b list" where
  "map_result f [] = Inr []"
| "map_result f (x # xs) =
     (case f x of
        Inl e \<Rightarrow> Inl e
      | Inr y \<Rightarrow> (case map_result f xs of Inl e \<Rightarrow> Inl e | Inr ys \<Rightarrow> Inr (y # ys)))"

fun parseTweets :: "'w env \<Rightarrow> json \<Rightarrow> error + tweet list" where
  "parseTweets env (JArr rawTweets) = map_result (parseTweet env) rawTweets"
| "parseTweets env v = Inr []"

section \<open>The "since" option\<close>

definition is_digit :: "char \<Rightarrow> bool" where
  "is_digit c = (c \<in> set ''0123456789'')"

text \<open>
  \<^verbatim>\<open>since.match(/^(\d+)(m|h|d)$/)\<close>: the whole string is one or more digits followed by
  one of m, h, d; the two groups are returned.
\<close>

definition match_shorthand :: "string \<Rightarrow> (string \<times> char) option" where
  "match_shorthand since =
     (if since \<noteq> [] \<and> butlast since \<noteq> [] \<and> list_all is_digit (butlast since)
         \<and> last since \<in> set ''mhd''
      then Some (butlast since, last since) else None)"

text \<open>\<^verbatim>\<open>parseInt\<close> of a string of decimal digits.\<close>

definition parseInt :: "string \<Rightarrow> int" where
  "parseInt ds = foldl (\<lambda>n c. 10 * n + (of_char c - 48)) 0 ds"

definition shorthand_ms :: "string \<Rightarrow> char \<Rightarrow> int" where
  "shorthand_ms digits unit =
     (let num = parseInt digits in
      if unit = CHR ''m'' then num * 60000
      else if unit = CHR ''h'' then num * 3600000
      else num * 86400000)"

text \<open>
  A \<^verbatim>\<open>Date\<close> object is its time value, \<open>None\<close> for an invalid date.  \<^verbatim>\<open>new Date(n)\<close>
  is invalid when \<open>n\<close> is more than 8.64e15 ms away from the epoch.
\<close>

type_synonym jsdate = "int option"

definition new_Date :: "int \<Rightarrow> jsdate" where
  "new_Date n = (if \<bar>n\<bar> \<le> 8640000000000000 then Some n else None)"

text \<open>\<^verbatim>\<open>parseSinceDate\<close>; the outer \<open>None\<close> is \<^verbatim>\<open>null\<close>.\<close>

definition parseSinceDate :: "'w env \<Rightarrow> 'w \<Rightarrow> string \<Rightarrow> jsdate option" where
  "parseSinceDate env w since =
     (case match_shorthand since of
        Some (digits, unit) \<Rightarrow> Some (new_Date (Date_now env w - shorthand_ms digits unit))
      | None \<Rightarrow>
          if str_includes since ''T'' \<or> str_includes since ''-''
          then (case Date_parse env since of Some n \<Rightarrow> Some (Some n) | None \<Rightarrow> None)
          else None)"

text \<open>
  \<^verbatim>\<open>String(n)\<close> for an integer, \<^verbatim>\<open>String(NaN)\<close>, and \<^verbatim>\<open>padStart(2, "0")\<close>, which adds
  nothing to a string of two or more characters.
\<close>

function show_nat :: "nat \<Rightarrow> string" where
  "show_nat n =
     (if n < 10 then [''0123456789'' ! n] else show_nat (n div 10) @ [''0123456789'' ! (n mod 10)])"
  by pat_completeness auto
termination
  by (relation "measure id") auto

definition show_int :: "int \<Rightarrow> string" where
  "show_int n = (if n < 0 then CHR ''-'' # show_nat (nat (- n)) else show_nat (nat n))"

definition String_num :: "int option \<Rightarrow> string" where
  "String_num v = (case v of None \<Rightarrow> ''NaN'' | Some n \<Rightarrow> show_int n)"

definition padStart2 :: "string \<Rightarrow> string" where
  "padStart2 s = replicate (2 - length s) CHR ''0'' @ s"

text \<open>
  \<^verbatim>\<open>parseSince\<close>: the same date as \<^verbatim>\<open>parseSinceDate\<close> computes, except that the second
  branch is tried only when the first gave no date, formatted as the query operator
  \<^verbatim>\<open>since:YYYY-MM-DD_HH:MM:SS_UTC\<close>.  The getters of an invalid date return NaN.
\<close>

definition parseSince :: "'w env \<Rightarrow> 'w \<Rightarrow> string \<Rightarrow> string option" where
  "parseSince env w since =
     (let date =
        (case match_shorthand since of
           Some (digits, unit) \<Rightarrow> Some (new_Date (Date_now env w - shorthand_ms digits unit))
         | None \<Rightarrow>
             if str_includes since ''T'' \<or> str_includes since ''-''
             then (case Date_parse env since of Some n \<Rightarrow> Some (Some n) | None \<Rightarrow> None)
             else None)
      in case date of
        None \<Rightarrow> None
      | Some d \<Rightarrow>
          (let y = String_num (map_option (getUTCFullYear env) d);
               mo = padStart2 (String_num (map_option (\<lambda>t. getUTCMonth env t + 1) d));
               dd = padStart2 (String_num (map_option (getUTCDate env) d));
               h = padStart2 (String_num (map_option (getUTCHours env) d));
               mi = padStart2 (String_num (map_option (getUTCMinutes env) d));
               sec = padStart2 (String_num (map_option (getUTCSeconds env) d))
           in Some (''since:'' @ y @ ''-'' @ mo @ ''-'' @ dd @ ''_'' @ h @ '':'' @ mi @ '':'' @ sec @ ''_UTC'')))"

text \<open>\<^verbatim>\<open>new Date(t.created_at).getTime() >= sinceDate.getTime()\<close>: false when either is NaN.\<close>

definition time_ge :: "int option \<Rightarrow> int option \<Rightarrow> bool" where
  "time_ge a b = (case a of None \<Rightarrow> False | Some x \<Rightarrow> (case b of None \<Rightarrow> False | Some y \<Rightarrow> y \<le> x))"

definition not_older :: "'w env \<Rightarrow> jsdate \<Rightarrow> tweet \<Rightarrow> bool" where
  "not_older env sinceDate t = time_ge (Date_parse env (created_at t)) sinceDate"

section \<open>The pagination loop\<close>

text \<open>
  \<^verbatim>\<open>search\<close>, \<^verbatim>\<open>thread\<close> and \<^verbatim>\<open>profile\<close> contain the same loop, which differs in the endpoint
  path, the fixed request parameters and the name of the record-list field only:
  \<^verbatim>\<open>
  for (let page = 0; page < pages; page++) {
    const params = { ...fixed };  if (cursor) params.cursor = cursor;
    const raw = await apiGet(path, params);
    const tweets = parseTweets(raw[field]);
    allTweets.push(...tweets);
    if (!raw.has_next_page || !raw.next_cursor) break;
    cursor = raw.next_cursor;
    if (page < pages - 1) await sleep(RATE_DELAY_MS);
  }
  \<close>
  \<open>page_step\<close> is the body of the loop up to the \<^verbatim>\<open>break\<close>: the request fails or a
  value of the response cannot be read (\<open>Failed\<close>), the loop is left (\<open>Done\<close>), or the
  cursor of the response is taken over (\<open>Continue\<close>).  \<open>page_loop\<close> is the loop from
  the state (page, cursor, allTweets) on.
\<close>

datatype 'w step =
    Failed error "'w state"
  | Done "tweet list" "'w state"
  | Continue json "tweet list" "'w state"

definition page_step ::
  "'w env \<Rightarrow> string \<Rightarrow> params \<Rightarrow> string \<Rightarrow> json \<Rightarrow> tweet list \<Rightarrow> 'w state \<Rightarrow> 'w step" where
  "page_step env path fixed field cursor allTweets s =
     (case apiGet env path (fixed @ (if truthy cursor then [(''cursor'', cursor)] else [])) s of
        (Inl e, s1) \<Rightarrow> Failed e s1
      | (Inr raw, s1) \<Rightarrow>
          (case get_prop raw field of
             Inl e \<Rightarrow> Failed e s1
           | Inr rawTweets \<Rightarrow>
               (case parseTweets env rawTweets of
                  Inl e \<Rightarrow> Failed e s1
                | Inr tweets \<Rightarrow>
                    (case get_prop raw ''has_next_page'' of
                       Inl e \<Rightarrow> Failed e s1
                     | Inr has_next_page \<Rightarrow>
                         if \<not> truthy has_next_page then Done (allTweets @ tweets) s1
                         else
                           (case get_prop raw ''next_cursor'' of
                              Inl e \<Rightarrow> Failed e s1
                            | Inr next_cursor \<Rightarrow>
                                if \<not> truthy next_cursor then Done (allTweets @ tweets) s1
                                else Continue next_cursor (allTweets @ tweets) s1)))))"

fun step_state :: "'w step \<Rightarrow> 'w state" where
  "step_state (Failed e s1) = s1"
| "step_state (Done tweets s1) = s1"
| "step_state (Continue next_cursor tweets s1) = s1"

function page_loop ::
  "'w env \<Rightarrow> string \<Rightarrow> params \<Rightarrow> string \<Rightarrow> int \<Rightarrow> int \<Rightarrow> json \<Rightarrow> tweet list \<Rightarrow> 'w state
     \<Rightarrow> (error + tweet list) \<times> 'w state" where
  "page_loop env path fixed field pages page cursor allTweets s =
     (if page < pages then
        (case page_step env path fixed field cursor allTweets s of
           Failed e s1 \<Rightarrow> (Inl e, s1)
         | Done tweets s1 \<Rightarrow> (Inr tweets, s1)
         | Continue next_cursor tweets s1 \<Rightarrow>
             page_loop env path fixed field pages (page + 1) next_cursor tweets
               (if page < pages - 1 then sleep env RATE_DELAY_MS s1 else s1))
      else (Inr allTweets, s))"
  by pat_completeness auto
termination
  by (relation "measure (\<lambda>(env, path, fixed, field, pages, page, cursor, allTweets, s). nat (pages - page))")
     auto

declare page_loop.simps [simp del]

section \<open>search, thread, profile\<close>

text \<open>
  The options, a field being \<open>None\<close> when the caller left it out.  The numeric options
  are taken to be integers.
\<close>

datatype sort_order = Relevancy | Recency

record search_opts =
  maxResults :: "int option"
  pages :: "int option"
  sortOrder :: "sort_order option"
  since :: "string option"

text \<open>
  \<^verbatim>\<open>search\<close>, in the order of the source: the page budget \<^verbatim>\<open>opts.pages || 1\<close> and the
  query type; the query, with the computed operator appended when \<^verbatim>\<open>since\<close> is given,
  an operator could be computed and the query has no \<^verbatim>\<open>since:\<close> of its own
  (\<open>fullQuery\<close>); the loop; the filter on the creation time when \<^verbatim>\<open>since\<close> is given and
  a date could be computed (\<open>since_filter\<close>); the cut to \<^verbatim>\<open>maxResults\<close> when that is
  truthy (\<open>max_results_cut\<close>).  \<^verbatim>\<open>if (opts.since)\<close> holds when the option is there and
  is not the empty string.
\<close>

definition since_given :: "search_opts \<Rightarrow> string option" where
  "since_given opts = (case since opts of None \<Rightarrow> None | Some sv \<Rightarrow> if sv = [] then None else Some sv)"

definition fullQuery :: "'w env \<Rightarrow> 'w \<Rightarrow> string \<Rightarrow> search_opts \<Rightarrow> string" where
  "fullQuery env w query opts =
     (case since_given opts of
        None \<Rightarrow> query
      | Some sv \<Rightarrow>
          (case parseSince env w sv of
             None \<Rightarrow> query
           | Some sinceOp \<Rightarrow> if \<not> str_includes query ''since:'' then query @ '' '' @ sinceOp else query))"

definition since_filter :: "'w env \<Rightarrow> 'w \<Rightarrow> search_opts \<Rightarrow> tweet list \<Rightarrow> tweet list" where
  "since_filter env w opts allTweets =
     (case since_given opts of
        None \<Rightarrow> allTweets
      | Some sv \<Rightarrow>
          (case parseSinceDate env w sv of
             None \<Rightarrow> allTweets
           | Some sinceDate \<Rightarrow> filter (not_older env sinceDate) allTweets))"

definition max_results_cut :: "search_opts \<Rightarrow> tweet list \<Rightarrow> tweet list" where
  "max_results_cut opts allTweets =
     (case maxResults opts of
        None \<Rightarrow> allTweets
      | Some n \<Rightarrow> if n \<noteq> 0 then slice0 allTweets n else allTweets)"

definition search :: "'w env \<Rightarrow> string \<Rightarrow> search_opts \<Rightarrow> 'w state \<Rightarrow> (error + tweet list) \<times> 'w state" where
  "search env query opts s =
     (let pgs = num_or (pages opts) 1;
          queryType = (if sortOrder opts = Some Recency then ''Latest'' else ''Top'');
          fq = fullQuery env (world s) query opts
      in case page_loop env ''/twitter/tweet/advanced_search''
                [(''query'', JStr fq), (''queryType'', JStr queryType)] ''tweets'' pgs 0 (JStr []) [] s of
           (Inl e, s1) \<Rightarrow> (Inl e, s1)
         | (Inr allTweets, s1) \<Rightarrow>
             (Inr (max_results_cut opts (since_filter env (world s1) opts allTweets)), s1))"

text \<open>
  \<^verbatim>\<open>thread\<close> and \<^verbatim>\<open>profile\<close>.  The option \<^verbatim>\<open>pages\<close> of \<^verbatim>\<open>thread\<close> is \<open>thread_pages\<close> here and
  the option \<^verbatim>\<open>count\<close> of \<^verbatim>\<open>profile\<close> is \<open>profile_count\<close>.
\<close>

record thread_opts =
  thread_pages :: "int option"

definition thread :: "'w env \<Rightarrow> string \<Rightarrow> thread_opts \<Rightarrow> 'w state \<Rightarrow> (error + tweet list) \<times> 'w state" where
  "thread env tweetId opts s =
     (let pgs = num_or (thread_pages opts) 2
      in page_loop env ''/twitter/tweet/thread_context'' [(''tweetId'', JStr tweetId)] ''replies''
           pgs 0 (JStr []) [] s)"

record profile_opts =
  profile_count :: "int option"
  includeReplies :: "bool option"

text \<open>
  \<^verbatim>\<open>obj.k = v\<close>.  The module is in strict mode, where the assignment raises a
  TypeError on a primitive value.  On an array the assignment succeeds and adds a
  named property, which is not an element of the array.
\<close>

definition set_field :: "(string \<times> json) list \<Rightarrow> string \<Rightarrow> json \<Rightarrow> (string \<times> json) list" where
  "set_field kvs k v =
     (if k \<in> fst ` set kvs then map (\<lambda>(k1, v1). if k1 = k then (k1, v) else (k1, v1)) kvs
      else kvs @ [(k, v)])"

fun normalize_user :: "json \<Rightarrow> error + json" where
  "normalize_user (JObj kvs) =
     (let field_of = (\<lambda>k. case map_of kvs k of None \<Rightarrow> JUndefined | Some v \<Rightarrow> v);
          kvs1 = set_field kvs ''username'' (field_of ''userName'')
      in Inr (JObj (set_field kvs1 ''public_metrics''
           (JObj [(''followers_count'', js_or (field_of ''followers'') (JNum 0)),
                  (''following_count'', js_or (field_of ''following'') (JNum 0)),
                  (''tweet_count'', js_or (field_of ''statusesCount'') (JNum 0)),
                  (''like_count'', js_or (field_of ''favouritesCount'') (JNum 0))]))))"
| "normalize_user (JArr xs) = Inr (JArr xs)"
| "normalize_user v = Inl TypeError"

text \<open>\<^verbatim>\<open>Math.ceil(count / 20)\<close> for an integer count.\<close>

definition pagesToFetch :: "int \<Rightarrow> int" where
  "pagesToFetch cnt = - ((- cnt) div 20)"

definition profile ::
  "'w env \<Rightarrow> string \<Rightarrow> profile_opts \<Rightarrow> 'w state \<Rightarrow> (error + json \<times> tweet list) \<times> 'w state" where
  "profile env uname opts s =
     (case apiGet env ''/twitter/user/info'' [(''userName'', JStr uname)] s of
        (Inl e, s1) \<Rightarrow> (Inl e, s1)
      | (Inr userRaw, s1) \<Rightarrow>
          (case get_prop userRaw ''data'' of
             Inl e \<Rightarrow> (Inl e, s1)
           | Inr userData \<Rightarrow>
               if \<not> truthy userData \<or> get_prop userRaw ''status'' = Inr (JStr ''error'')
               then (Inl (UserNotFound uname), s1)
               else
                 (case normalize_user userData of
                    Inl e \<Rightarrow> (Inl e, s1)
                  | Inr user \<Rightarrow>
                      (let s2 = sleep env RATE_DELAY_MS s1;
                           cnt = num_or (profile_count opts) 20
                       in case page_loop env ''/twitter/user/last_tweets''
                                 [(''userName'', JStr uname),
                                  (''includeReplies'',
                                     JStr (if includeReplies opts = Some True then ''true'' else ''false''))]
                                 ''tweets'' (pagesToFetch cnt) 0 (JStr []) [] s2 of
                            (Inl e, s3) \<Rightarrow> (Inl e, s3)
                          | (Inr allTweets, s3) \<Rightarrow> (Inr (user, slice0 allTweets cnt), s3)))))"

section \<open>Observing the log\<close>

text \<open>The events a run added to the log, and what is read off them.\<close>

definition new_events :: "'w state \<Rightarrow> 'w state \<Rightarrow> event list" where
  "new_events s s1 = drop (length (trace s)) (trace s1)"

fun is_call :: "event \<Rightarrow> bool" where
  "is_call (Call path ps r) = True"
| "is_call (Sleep ms) = False"

definition calls :: "event list \<Rightarrow> event list" where
  "calls ev = filter is_call ev"

text \<open>
  \<open>paced\<close>: the events are transport calls with exactly one wait of \<open>RATE_DELAY_MS\<close>
  between two consecutive calls, and no wait before the first or after the last.
\<close>

fun paced :: "event list \<Rightarrow> bool" where
  "paced [] = True"
| "paced [Call path ps r] = True"
| "paced (Call path ps r # Sleep ms # rest) = (ms = RATE_DELAY_MS \<and> rest \<noteq> [] \<and> paced rest)"
| "paced other = False"

text \<open>
  \<open>continues\<close>: the call returned a response whose \<^verbatim>\<open>has_next_page\<close> and \<^verbatim>\<open>next_cursor\<close>
  are both truthy.
\<close>

fun continues :: "event \<Rightarrow> bool" where
  "continues (Call path ps (Inr raw)) =
     (case get_prop raw ''has_next_page'' of
        Inl e \<Rightarrow> False
      | Inr h \<Rightarrow> truthy h \<and> (case get_prop raw ''next_cursor'' of Inl e \<Rightarrow> False | Inr c \<Rightarrow> truthy c))"
| "continues other = False"

text \<open>\<open>call_to path fixed\<close>: a call goes to \<open>path\<close> and its parameters start with \<open>fixed\<close>.\<close>

fun call_to :: "string \<Rightarrow> params \<Rightarrow> event \<Rightarrow> bool" where
  "call_to path fixed (Call p ps r) = (p = path \<and> prefix fixed ps)"
| "call_to path fixed (Sleep ms) = True"

fun sent_param :: "string \<Rightarrow> event \<Rightarrow> json option" where
  "sent_param k (Call p ps r) = map_of ps k"
| "sent_param k (Sleep ms) = None"

text \<open>The calls among the events that went to one endpoint.\<close>

fun is_call_to :: "string \<Rightarrow> event \<Rightarrow> bool" where
  "is_call_to path (Call p ps r) = (p = path)"
| "is_call_to path (Sleep ms) = False"

definition calls_to :: "string \<Rightarrow> event list \<Rightarrow> event list" where
  "calls_to path ev = filter (is_call_to path) ev"

text \<open>The events of one run of the loop and of one run of each fetch.\<close>

definition loop_events ::
  "'w env \<Rightarrow> string \<Rightarrow> params \<Rightarrow> string \<Rightarrow> int \<Rightarrow> int \<Rightarrow> json \<Rightarrow> tweet list \<Rightarrow> 'w state \<Rightarrow> event list" where
  "loop_events env path fixed field pgs page cursor allTweets s =
     new_events s (snd (page_loop env path fixed field pgs page cursor allTweets s))"

definition search_events :: "'w env \<Rightarrow> string \<Rightarrow> search_opts \<Rightarrow> 'w state \<Rightarrow> event list" where
  "search_events env query opts s = new_events s (snd (search env query opts s))"

definition thread_events :: "'w env \<Rightarrow> string \<Rightarrow> thread_opts \<Rightarrow> 'w state \<Rightarrow> event list" where
  "thread_events env tweetId opts s = new_events s (snd (thread env tweetId opts s))"

definition profile_events :: "'w env \<Rightarrow> string \<Rightarrow> profile_opts \<Rightarrow> 'w state \<Rightarrow> event list" where
  "profile_events env uname opts s = new_events s (snd (profile env uname opts s))"

section \<open>Cache store\<close>

text \<open>
  Modelled from the spec: \<^verbatim>\<open>lib/cache.ts\<close> is not among the sources, only its tests are.
  An entry is the stored payload and its last-write time; the payload is either the
  serialised record sequence, read back as it was written, or unreadable.  The key
  is any deterministic function \<open>key_of\<close> of the query and the parameter string.
  \<open>get\<close> compares the age, now minus the last-write time, with the TTL (15 minutes
  when the caller gives none); \<open>set\<close> replaces the entry of the key.
\<close>

datatype payload = Records "tweet list" | Corrupt

record cache_entry =
  payload :: payload
  written_at :: int

definition DEFAULT_TTL_MS :: int where
  "DEFAULT_TTL_MS = 15 * 60 * 1000"

definition cache_get ::
  "(string \<Rightarrow> string \<Rightarrow> 'k) \<Rightarrow> ('k \<rightharpoonup> cache_entry) \<Rightarrow> int \<Rightarrow> string \<Rightarrow> string \<Rightarrow> int option
     \<Rightarrow> tweet list option" where
  "cache_get key_of store now query ps ttlMillis =
     (case store (key_of query ps) of
        None \<Rightarrow> None
      | Some e \<Rightarrow>
          if now - written_at e \<le> (case ttlMillis of None \<Rightarrow> DEFAULT_TTL_MS | Some ttl \<Rightarrow> ttl)
          then (case payload e of Records rs \<Rightarrow> Some rs | Corrupt \<Rightarrow> None)
          else None)"

definition cache_set ::
  "(string \<Rightarrow> string \<Rightarrow> 'k) \<Rightarrow> ('k \<rightharpoonup> cache_entry) \<Rightarrow> int \<Rightarrow> string \<Rightarrow> string \<Rightarrow> tweet list
     \<Rightarrow> ('k \<rightharpoonup> cache_entry)" where
  "cache_set key_of store now query ps records =
     store(key_of query ps \<mapsto> \<lparr>payload = Records records, written_at = now\<rparr>)"

section \<open>A scripted environment\<close>

text \<open>
  An environment to run the model on concrete inputs.  The world is the list of HTTP
  responses the service will give, in order, and a clock that only waiting advances.
  Creation times are written as decimal milliseconds; the UTC getters are right for
  January 1970.  A raw record is normalised by reading its \<^verbatim>\<open>id\<close> and \<^verbatim>\<open>createdAt\<close>.
\<close>

record script_world =
  pending :: "http_response list"
  clock :: int

definition str_of :: "json \<Rightarrow> string" where
  "str_of v = (case v of JStr x \<Rightarrow> x | _ \<Rightarrow> [])"

definition script_tweet :: "string \<Rightarrow> string \<Rightarrow> tweet" where
  "script_tweet i c =
     \<lparr>tweet_id = i, tweet_text = [], author_id = [], username = ''?'', name = ''?'',
      created_at = c, conversation_id = [],
      metrics = \<lparr>likes = 0, retweets = 0, replies = 0, quotes = 0, impressions = 0, bookmarks = 0\<rparr>,
      urls = [], mentions = [], hashtags = [], tweet_url = []\<rparr>"

definition script_parseTweet :: "json \<Rightarrow> error + tweet" where
  "script_parseTweet t =
     (case get_prop t ''id'' of
        Inl e \<Rightarrow> Inl e
      | Inr i \<Rightarrow> (case get_prop t ''createdAt'' of
                    Inl e \<Rightarrow> Inl e
                  | Inr c \<Rightarrow> Inr (script_tweet (str_of i) (str_of c))))"

definition script_env :: "script_world env" where
  "script_env =
     \<lparr>getApiKey = (\<lambda>w. Some ''key''),
      fetch = (\<lambda>path ps apiKey w.
                 case pending w of
                   [] \<Rightarrow> (None, w)
                 | r # rs \<Rightarrow> (Some r, w\<lparr>pending := rs\<rparr>)),
      sleep_world = (\<lambda>ms w. w\<lparr>clock := clock w + int ms\<rparr>),
      Date_now = clock,
      Date_parse = (\<lambda>x. if x \<noteq> [] \<and> list_all is_digit x then Some (parseInt x) else None),
      getUTCFullYear = (\<lambda>t. 1970),
      getUTCMonth = (\<lambda>t. 0),
      getUTCDate = (\<lambda>t. 1 + t div 86400000),
      getUTCHours = (\<lambda>t. (t div 3600000) mod 24),
      getUTCMinutes = (\<lambda>t. (t div 60000) mod 60),
      getUTCSeconds = (\<lambda>t. (t div 1000) mod 60),
      parseTweet = script_parseTweet\<rparr>"

definition ok_response :: "json \<Rightarrow> http_response" where
  "ok_response j = \<lparr>status = 200, body_text = [], body_json = Some j\<rparr>"

definition raw_tweet :: "string \<Rightarrow> string \<Rightarrow> json" where
  "raw_tweet i c = JObj [(''id'', JStr i), (''createdAt'', JStr c)]"

definition page_of :: "json list \<Rightarrow> bool \<Rightarrow> string \<Rightarrow> json" where
  "page_of ts has_more cur =
     JObj [(''tweets'', JArr ts), (''has_next_page'', JBool has_more), (''next_cursor'', JStr cur)]"

definition start_state :: "http_response list \<Rightarrow> script_world state" where
  "start_state rs = \<lparr>world = \<lparr>pending = rs, clock = 2000000000\<rparr>, trace = []\<rparr>"

definition no_opts :: search_opts where
  "no_opts = \<lparr>maxResults = None, pages = None, sortOrder = None, since = None\<rparr>"

definition liked :: "string \<Rightarrow> int \<Rightarrow> tweet" where
  "liked i n = (script_tweet i [])\<lparr>metrics :=
     \<lparr>likes = n, retweets = 0, replies = 0, quotes = 0, impressions = 0, bookmarks = 0\<rparr>\<rparr>"

section \<open>Properties of sortBy\<close>

lemma js_insert_insort_key:
  "js_insert (\<lambda>a b. f a - f b) x xs = insort_key (f :: 'a \<Rightarrow> int) x xs"
  by (induction xs) simp_all

lemma js_sort_sort_key:
  "js_sort (\<lambda>a b. f a - f b) xs = sort_key (f :: 'a \<Rightarrow> int) xs"
  by (induction xs) (simp_all add: js_insert_insort_key)

lemma sortBy_sort_key: "sortBy ts m = sort_key (\<lambda>t. - metric_of m t) ts"
proof -
  have "by_metric_desc m = (\<lambda>a b. (- metric_of m a) - (- metric_of m b))"
    by (simp add: by_metric_desc_def fun_eq_iff)
  then show ?thesis
    unfolding sortBy_def by (simp only: js_sort_sort_key)
qed

lemma sortBy_descending:
  "sorted_wrt (\<lambda>a b. metric_of m b \<le> metric_of m a) (sortBy ts m)"
proof -
  have "sorted (map (\<lambda>t. - metric_of m t) (sortBy ts m))"
    unfolding sortBy_sort_key by (rule sorted_sort_key)
  then show ?thesis by (simp add: sorted_map)
qed

lemma sortBy_stable:
  "filter (\<lambda>t. metric_of m t = k) (sortBy ts m) = filter (\<lambda>t. metric_of m t = k) ts"
proof -
  have "filter (\<lambda>t. - metric_of m t = - k) (sort_key (\<lambda>t. - metric_of m t) ts)
      = filter (\<lambda>t. - metric_of m t = - k) ts"
    by (rule sort_key_stable)
  then show ?thesis by (simp add: sortBy_sort_key)
qed

lemma sortBy_mset: "mset (sortBy ts m) = mset ts"
  by (simp add: sortBy_sort_key)

lemma sortBy_store_result:
  assumes "a < length h"
  shows "sortBy_store h a m = Inr (h @ [sortBy (h ! a) m], length h)"
  using assms
  by (simp add: sortBy_store_def spread_copy_def sort_in_place_def sortBy_def nth_append)

section \<open>Properties of dedupe\<close>

lemma dedupe_from_ids: "tweet_id ` set (dedupe_from S ts) = tweet_id ` set ts - S"
  by (induction ts arbitrary: S) auto

lemma dedupe_from_distinct: "distinct (map tweet_id (dedupe_from S ts))"
  by (induction ts arbitrary: S) (auto simp: dedupe_from_ids)

lemma dedupe_from_subseq: "subseq (dedupe_from S ts) ts"
  by (induction ts arbitrary: S) auto

lemma dedupe_from_fixed:
  "distinct (map tweet_id ts) \<Longrightarrow> tweet_id ` set ts \<inter> S = {} \<Longrightarrow> dedupe_from S ts = ts"
proof (induction ts arbitrary: S)
  case Nil
  then show ?case by simp
next
  case (Cons t ts)
  from Cons.prems have "tweet_id t \<notin> S" by auto
  moreover from Cons.prems have "tweet_id ` set ts \<inter> insert (tweet_id t) S = {}" by auto
  moreover from Cons.prems have "distinct (map tweet_id ts)" by simp
  ultimately show ?case using Cons.IH by simp
qed

lemma dedupe_from_find:
  "i \<notin> S \<Longrightarrow> find (\<lambda>t. tweet_id t = i) (dedupe_from S ts) = find (\<lambda>t. tweet_id t = i) ts"
proof (induction ts arbitrary: S)
  case Nil
  then show ?case by simp
next
  case (Cons t ts)
  show ?case
  proof (cases "tweet_id t \<in> S")
    case True
    with Cons.prems have "tweet_id t \<noteq> i" by auto
    with True Cons show ?thesis by simp
  next
    case False
    with Cons show ?thesis by simp
  qed
qed

lemma dedupe_from_length: "length (dedupe_from S ts) \<le> length ts"
  by (induction ts arbitrary: S) (auto intro: le_SucI)

lemma dedupe_from_idem: "dedupe_from S (dedupe_from S ts) = dedupe_from S ts"
proof (rule dedupe_from_fixed)
  show "distinct (map tweet_id (dedupe_from S ts))" by (rule dedupe_from_distinct)
  show "tweet_id ` set (dedupe_from S ts) \<inter> S = {}" by (auto simp: dedupe_from_ids)
qed

text \<open>
  C6.  For every record sequence and each of the four metric names, \<open>sortBy\<close> returns
  a rearrangement of its input that is descending in the metric; records with the
  same metric value keep their original relative order (for every value \<open>k\<close>, the
  records with value \<open>k\<close> are the same sequence before and after); sorting a sorted
  sequence again changes nothing; the empty and the one-element sequence come back as
  they are; and on the store of arrays the result is a newly allocated array, every
  array that existed before the call, the argument among them, being left as it was.
\<close>

theorem sortBy_descending_stable_fresh:
  "sorted_wrt (\<lambda>a b. metric_of m b \<le> metric_of m a) (sortBy ts m)
   \<and> mset (sortBy ts m) = mset ts
   \<and> filter (\<lambda>t. metric_of m t = k) (sortBy ts m) = filter (\<lambda>t. metric_of m t = k) ts
   \<and> sortBy (sortBy ts m) m = sortBy ts m
   \<and> sortBy [] m = []
   \<and> sortBy [t] m = [t]
   \<and> (a < length h \<longrightarrow>
        (\<exists>h1 r. sortBy_store h a m = Inr (h1, r) \<and> r = length h \<and> take (length h) h1 = h
            \<and> h1 ! a = h ! a \<and> h1 ! r = sortBy (h ! a) m))"
proof -
  have idem: "sortBy (sortBy ts m) m = sortBy ts m"
    by (simp add: sortBy_sort_key sort_key_id_if_sorted)
  have small: "sortBy [] m = []" "sortBy [t] m = [t]"
    by (simp_all add: sortBy_def)
  have store: "a < length h \<longrightarrow>
        (\<exists>h1 r. sortBy_store h a m = Inr (h1, r) \<and> r = length h \<and> take (length h) h1 = h
            \<and> h1 ! a = h ! a \<and> h1 ! r = sortBy (h ! a) m)"
    by (simp add: sortBy_store_result nth_append)
  show ?thesis
    using sortBy_descending [of m ts] sortBy_mset [of ts m] sortBy_stable [of m k ts] idem small store
    by blast
qed

theorem sortBy_descending_stable_fresh_witness:
  "(0::nat) < length [[liked ''1'' 10, liked ''2'' 50, liked ''3'' 50]]
   \<and> sortBy_store [[liked ''1'' 10, liked ''2'' 50, liked ''3'' 50]] 0 Likes
       = Inr ([[liked ''1'' 10, liked ''2'' 50, liked ''3'' 50],
               [liked ''2'' 50, liked ''3'' 50, liked ''1'' 10]], 1)"
  using sortBy_descending_stable_fresh
    [of Likes "[liked ''1'' 10, liked ''2'' 50, liked ''3'' 50]" 0 "liked ''1'' 10" 0
        "[[liked ''1'' 10, liked ''2'' 50, liked ''3'' 50]]"]
  by (simp add: sortBy_store_def spread_copy_def sort_in_place_def by_metric_desc_def
      liked_def script_tweet_def)

text \<open>
  C7.  For every record sequence, \<open>dedupe\<close> keeps exactly one record for each
  identifier of the input, namely the first record with that identifier, in the
  order of the input (the result is a subsequence of the input); deduplicating again
  changes nothing; the result is not longer than the input.
\<close>

theorem dedupe_first_occurrence_idempotent:
  "distinct (map tweet_id (dedupe ts))
   \<and> tweet_id ` set (dedupe ts) = tweet_id ` set ts
   \<and> find (\<lambda>t. tweet_id t = i) (dedupe ts) = find (\<lambda>t. tweet_id t = i) ts
   \<and> subseq (dedupe ts) ts
   \<and> dedupe (dedupe ts) = dedupe ts
   \<and> length (dedupe ts) \<le> length ts"
  unfolding dedupe_def
  using dedupe_from_distinct [of "{}" ts] dedupe_from_ids [of "{}" ts]
    dedupe_from_find [of i "{}" ts] dedupe_from_subseq [of "{}" ts]
    dedupe_from_idem [of "{}" ts] dedupe_from_length [of "{}" ts]
  by simp

section \<open>The events of the pagination loop\<close>

lemma page_loop_stop:
  "\<not> page < pgs \<Longrightarrow> page_loop env path fixed field pgs page cursor allTweets s = (Inr allTweets, s)"
  by (subst page_loop.simps) simp

lemma page_loop_iter:
  "page < pgs \<Longrightarrow>
   page_loop env path fixed field pgs page cursor allTweets s =
     (case page_step env path fixed field cursor allTweets s of
        Failed e s1 \<Rightarrow> (Inl e, s1)
      | Done tweets s1 \<Rightarrow> (Inr tweets, s1)
      | Continue next_cursor tweets s1 \<Rightarrow>
          page_loop env path fixed field pgs (page + 1) next_cursor tweets
            (if page < pgs - 1 then sleep env RATE_DELAY_MS s1 else s1))"
  by (subst page_loop.simps) simp

lemma apiGet_trace:
  "apiGet env path ps s = (r, s1) \<Longrightarrow> trace s1 = trace s @ [Call path ps r]"
  by (auto simp: apiGet_def split: prod.splits)

lemma page_step_event:
  "\<exists>ps r. trace (step_state (page_step env path fixed field cursor allTweets s)) = trace s @ [Call path ps r]
     \<and> prefix fixed ps
     \<and> ((\<exists>c ts s1. page_step env path fixed field cursor allTweets s = Continue c ts s1)
          \<longrightarrow> continues (Call path ps r))"
proof -
  obtain r s1 where a: "apiGet env path (fixed @ (if truthy cursor then [(''cursor'', cursor)] else [])) s = (r, s1)"
    by (cases "apiGet env path (fixed @ (if truthy cursor then [(''cursor'', cursor)] else [])) s")
  have t: "trace s1 = trace s @ [Call path (fixed @ (if truthy cursor then [(''cursor'', cursor)] else [])) r]"
    by (rule apiGet_trace [OF a])
  show ?thesis
    apply (rule exI [of _ "fixed @ (if truthy cursor then [(''cursor'', cursor)] else [])"])
    apply (rule exI [of _ r])
    using a t
    by (auto simp: page_step_def split: sum.splits)
qed

lemma paced_starts_with_call:
  "paced ev \<Longrightarrow> ev \<noteq> [] \<Longrightarrow> calls ev \<noteq> []"
  by (cases ev rule: paced.cases) (auto simp: calls_def)

lemma sleep_trace: "trace (sleep env ms s) = trace s @ [Sleep ms]"
  by (simp add: sleep_def)

lemma page_loop_events:
  "\<exists>ev. trace (snd (page_loop env path fixed field pgs page cursor allTweets s)) = trace s @ ev
      \<and> paced ev \<and> (page < pgs \<longrightarrow> ev \<noteq> []) \<and> (pgs \<le> page \<longrightarrow> ev = [])
      \<and> int (length (calls ev)) \<le> max 0 (pgs - page)
      \<and> list_all continues (butlast (calls ev))
      \<and> list_all (call_to path fixed) ev"
proof (induction env path fixed field pgs page cursor allTweets s rule: page_loop.induct)
  case (1 env path fixed field pgs page cursor allTweets s)
  show ?case
  proof (cases "page < pgs")
    case False
    then show ?thesis by (simp add: page_loop_stop calls_def)
  next
    case True
    let ?st = "page_step env path fixed field cursor allTweets s"
    obtain ps r where ev: "trace (step_state ?st) = trace s @ [Call path ps r]"
      and pre: "prefix fixed ps"
      and cont: "(\<exists>c ts s1. ?st = Continue c ts s1) \<longrightarrow> continues (Call path ps r)"
      using page_step_event [of env path fixed field cursor allTweets s] by blast
    show ?thesis
    proof (cases ?st)
      case (Failed e s1)
      with True ev pre show ?thesis
        by (simp add: page_loop_iter calls_def)
    next
      case (Done ts s1)
      with True ev pre show ?thesis
        by (simp add: page_loop_iter calls_def)
    next
      case (Continue c ts s1)
      let ?s2 = "if page < pgs - 1 then sleep env RATE_DELAY_MS s1 else s1"
      let ?res = "page_loop env path fixed field pgs (page + 1) c ts ?s2"
      from "1.IH" [OF True Continue] obtain ev' where
        tr: "trace (snd ?res) = trace ?s2 @ ev'" and pc: "paced ev'"
        and ne: "page + 1 < pgs \<longrightarrow> ev' \<noteq> []" and em: "pgs \<le> page + 1 \<longrightarrow> ev' = []"
        and bd: "int (length (calls ev')) \<le> max 0 (pgs - (page + 1))"
        and cn: "list_all continues (butlast (calls ev'))"
        and ct: "list_all (call_to path fixed) ev'"
        by blast
      have res: "page_loop env path fixed field pgs page cursor allTweets s = ?res"
        using True Continue by (simp add: page_loop_iter)
      from ev Continue have ev1: "trace s1 = trace s @ [Call path ps r]" by simp
      from cont Continue have c1: "continues (Call path ps r)" by simp
      show ?thesis
      proof (cases "page < pgs - 1")
        case True
        then have "ev' \<noteq> []" using ne by simp
        then have cne: "calls ev' \<noteq> []" using pc by (rule paced_starts_with_call [rotated])
        from True have "trace (snd ?res) = trace s @ (Call path ps r # Sleep RATE_DELAY_MS # ev')"
          using tr ev1 by (simp add: sleep_trace)
        moreover have "paced (Call path ps r # Sleep RATE_DELAY_MS # ev')"
          using pc \<open>ev' \<noteq> []\<close> by simp
        moreover have "int (length (calls (Call path ps r # Sleep RATE_DELAY_MS # ev'))) \<le> max 0 (pgs - page)"
          using bd True by (simp add: calls_def)
        moreover have "list_all continues (butlast (calls (Call path ps r # Sleep RATE_DELAY_MS # ev')))"
          using cn c1 cne by (simp add: calls_def)
        moreover have "list_all (call_to path fixed) (Call path ps r # Sleep RATE_DELAY_MS # ev')"
          using ct pre by simp
        ultimately show ?thesis
          unfolding res using \<open>page < pgs\<close> by (intro exI [of _ "Call path ps r # Sleep RATE_DELAY_MS # ev'"]) simp
      next
        case False
        then have "ev' = []" using em by simp
        with False tr ev1 have "trace (snd ?res) = trace s @ [Call path ps r]" by simp
        then show ?thesis
          unfolding res using \<open>page < pgs\<close> pre
          by (intro exI [of _ "[Call path ps r]"]) (simp add: calls_def)
      qed
    qed
  qed
qed

lemma new_events_eq: "trace s1 = trace s @ ev \<Longrightarrow> new_events s s1 = ev"
  by (simp add: new_events_def)

lemma loop_events_props:
  "trace (snd (page_loop env path fixed field pgs page cursor acc s))
      = trace s @ loop_events env path fixed field pgs page cursor acc s
   \<and> paced (loop_events env path fixed field pgs page cursor acc s)
   \<and> (page < pgs \<longrightarrow> loop_events env path fixed field pgs page cursor acc s \<noteq> [])
   \<and> int (length (calls (loop_events env path fixed field pgs page cursor acc s))) \<le> max 0 (pgs - page)
   \<and> list_all continues (butlast (calls (loop_events env path fixed field pgs page cursor acc s)))
   \<and> list_all (call_to path fixed) (loop_events env path fixed field pgs page cursor acc s)"
proof -
  obtain ev where tr: "trace (snd (page_loop env path fixed field pgs page cursor acc s)) = trace s @ ev"
    and rest: "paced ev" "page < pgs \<longrightarrow> ev \<noteq> []"
      "int (length (calls ev)) \<le> max 0 (pgs - page)"
      "list_all continues (butlast (calls ev))" "list_all (call_to path fixed) ev"
    using page_loop_events [of env path fixed field pgs page cursor acc s] by blast
  have "loop_events env path fixed field pgs page cursor acc s = ev"
    unfolding loop_events_def by (rule new_events_eq [OF tr])
  with tr rest show ?thesis by simp
qed

lemma search_state:
  "snd (search env query opts s) =
     snd (page_loop env ''/twitter/tweet/advanced_search''
            [(''query'', JStr (fullQuery env (world s) query opts)),
             (''queryType'', JStr (if sortOrder opts = Some Recency then ''Latest'' else ''Top''))]
            ''tweets'' (num_or (pages opts) 1) 0 (JStr []) [] s)"
  by (simp add: search_def Let_def split: prod.splits sum.splits)

lemma search_events_loop:
  "search_events env query opts s =
     loop_events env ''/twitter/tweet/advanced_search''
            [(''query'', JStr (fullQuery env (world s) query opts)),
             (''queryType'', JStr (if sortOrder opts = Some Recency then ''Latest'' else ''Top''))]
            ''tweets'' (num_or (pages opts) 1) 0 (JStr []) [] s"
  unfolding search_events_def loop_events_def by (simp only: search_state)

lemma thread_events_loop:
  "thread_events env tweetId topts s =
     loop_events env ''/twitter/tweet/thread_context'' [(''tweetId'', JStr tweetId)] ''replies''
       (num_or (thread_pages topts) 2) 0 (JStr []) [] s"
  unfolding thread_events_def loop_events_def by (simp add: thread_def Let_def)

lemma calls_to_loop:
  "list_all (call_to path fixed) ev \<Longrightarrow> calls_to path ev = calls ev"
proof (induction ev)
  case Nil
  then show ?case by (simp add: calls_to_def calls_def)
next
  case (Cons e ev)
  then show ?case by (cases e) (simp_all add: calls_to_def calls_def)
qed

lemma profile_events_shape:
  "\<exists>r. profile_events env uname popts s = [Call ''/twitter/user/info'' [(''userName'', JStr uname)] r]
     \<or> (\<exists>s2. profile_events env uname popts s =
           Call ''/twitter/user/info'' [(''userName'', JStr uname)] r # Sleep RATE_DELAY_MS #
           loop_events env ''/twitter/user/last_tweets''
             [(''userName'', JStr uname),
              (''includeReplies'', JStr (if includeReplies popts = Some True then ''true'' else ''false''))]
             ''tweets'' (pagesToFetch (num_or (profile_count popts) 20)) 0 (JStr []) [] s2)"
proof -
  let ?fixed = "[(''userName'', JStr uname),
              (''includeReplies'', JStr (if includeReplies popts = Some True then ''true'' else ''false''))]"
  let ?n = "pagesToFetch (num_or (profile_count popts) 20)"
  obtain r s1 where a: "apiGet env ''/twitter/user/info'' [(''userName'', JStr uname)] s = (r, s1)"
    by (cases "apiGet env ''/twitter/user/info'' [(''userName'', JStr uname)] s")
  have t1: "trace s1 = trace s @ [Call ''/twitter/user/info'' [(''userName'', JStr uname)] r]"
    by (rule apiGet_trace [OF a])
  let ?s2 = "sleep env RATE_DELAY_MS s1"
  have "snd (profile env uname popts s) = s1
      \<or> snd (profile env uname popts s) = snd (page_loop env ''/twitter/user/last_tweets'' ?fixed ''tweets'' ?n 0 (JStr []) [] ?s2)"
    using a by (auto simp: profile_def Let_def split: sum.splits prod.splits)
  then show ?thesis
  proof
    assume "snd (profile env uname popts s) = s1"
    with t1 have "profile_events env uname popts s = [Call ''/twitter/user/info'' [(''userName'', JStr uname)] r]"
      unfolding profile_events_def by (simp add: new_events_eq)
    then show ?thesis by blast
  next
    assume b: "snd (profile env uname popts s) = snd (page_loop env ''/twitter/user/last_tweets'' ?fixed ''tweets'' ?n 0 (JStr []) [] ?s2)"
    have "trace (snd (page_loop env ''/twitter/user/last_tweets'' ?fixed ''tweets'' ?n 0 (JStr []) [] ?s2))
        = trace ?s2 @ loop_events env ''/twitter/user/last_tweets'' ?fixed ''tweets'' ?n 0 (JStr []) [] ?s2"
      using loop_events_props by blast
    then have "trace (snd (profile env uname popts s))
        = trace s @ (Call ''/twitter/user/info'' [(''userName'', JStr uname)] r # Sleep RATE_DELAY_MS #
             loop_events env ''/twitter/user/last_tweets'' ?fixed ''tweets'' ?n 0 (JStr []) [] ?s2)"
      using b t1 by (simp add: sleep_trace)
    then have "profile_events env uname popts s =
        Call ''/twitter/user/info'' [(''userName'', JStr uname)] r # Sleep RATE_DELAY_MS #
             loop_events env ''/twitter/user/last_tweets'' ?fixed ''tweets'' ?n 0 (JStr []) [] ?s2"
      unfolding profile_events_def by (rule new_events_eq)
    then show ?thesis by blast
  qed
qed

lemma profile_page_calls:
  "\<exists>s2. calls_to ''/twitter/user/last_tweets'' (profile_events env uname popts s) = []
     \<or> calls_to ''/twitter/user/last_tweets'' (profile_events env uname popts s) =
        calls (loop_events env ''/twitter/user/last_tweets''
             [(''userName'', JStr uname),
              (''includeReplies'', JStr (if includeReplies popts = Some True then ''true'' else ''false''))]
             ''tweets'' (pagesToFetch (num_or (profile_count popts) 20)) 0 (JStr []) [] s2)"
proof -
  let ?fixed = "[(''userName'', JStr uname),
              (''includeReplies'', JStr (if includeReplies popts = Some True then ''true'' else ''false''))]"
  let ?n = "pagesToFetch (num_or (profile_count popts) 20)"
  from profile_events_shape [of env uname popts s] obtain r where
    "profile_events env uname popts s = [Call ''/twitter/user/info'' [(''userName'', JStr uname)] r]
     \<or> (\<exists>s2. profile_events env uname popts s =
           Call ''/twitter/user/info'' [(''userName'', JStr uname)] r # Sleep RATE_DELAY_MS #
           loop_events env ''/twitter/user/last_tweets'' ?fixed ''tweets'' ?n 0 (JStr []) [] s2)"
    by blast
  then show ?thesis
  proof
    assume "profile_events env uname popts s = [Call ''/twitter/user/info'' [(''userName'', JStr uname)] r]"
    then show ?thesis by (simp add: calls_to_def)
  next
    assume "\<exists>s2. profile_events env uname popts s =
           Call ''/twitter/user/info'' [(''userName'', JStr uname)] r # Sleep RATE_DELAY_MS #
           loop_events env ''/twitter/user/last_tweets'' ?fixed ''tweets'' ?n 0 (JStr []) [] s2"
    then obtain s2 where e: "profile_events env uname popts s =
           Call ''/twitter/user/info'' [(''userName'', JStr uname)] r # Sleep RATE_DELAY_MS #
           loop_events env ''/twitter/user/last_tweets'' ?fixed ''tweets'' ?n 0 (JStr []) [] s2" by blast
    have "calls_to ''/twitter/user/last_tweets'' (loop_events env ''/twitter/user/last_tweets'' ?fixed ''tweets'' ?n 0 (JStr []) [] s2)
        = calls (loop_events env ''/twitter/user/last_tweets'' ?fixed ''tweets'' ?n 0 (JStr []) [] s2)"
      using loop_events_props [of env "''/twitter/user/last_tweets''" ?fixed "''tweets''" ?n 0 "JStr []" "[]" s2]
      by (intro calls_to_loop) blast
    then have "calls_to ''/twitter/user/last_tweets'' (profile_events env uname popts s)
        = calls (loop_events env ''/twitter/user/last_tweets'' ?fixed ''tweets'' ?n 0 (JStr []) [] s2)"
      unfolding e by (simp add: calls_to_def)
    then show ?thesis by blast
  qed
qed

text \<open>
  C1.  In every paginated fetch the loop is left as soon as one of three things
  holds.  The page budget is used up: the loop, and with it \<open>search\<close> and \<open>thread\<close>,
  makes at most as many transport calls as the budget (\<^verbatim>\<open>opts.pages || 1\<close>,
  \<^verbatim>\<open>opts.pages || 2\<close>), and \<open>profile\<close> makes at most \<^verbatim>\<open>ceil(count / 20)\<close> calls to the
  timeline endpoint after its one user lookup.  The continuation flag is false, or
  there is no next cursor: every call but the last one of a fetch returned a response
  whose \<^verbatim>\<open>has_next_page\<close> and \<^verbatim>\<open>next_cursor\<close> are both truthy, so a response without
  either is never followed by another call.  Nothing is assumed about the responses:
  with a budget of one page there is at most one call, whatever the response claims.
  The loop is a total function, so every run of it ends.
\<close>

theorem pagination_three_stops:
  "int (length (calls (loop_events env path fixed field pgs page cursor acc s))) \<le> max 0 (pgs - page)
   \<and> list_all continues (butlast (calls (loop_events env path fixed field pgs page cursor acc s)))
   \<and> int (length (calls (search_events env query opts s))) \<le> max 0 (num_or (pages opts) 1)
   \<and> list_all continues (butlast (calls (search_events env query opts s)))
   \<and> int (length (calls (thread_events env tweetId topts s))) \<le> max 0 (num_or (thread_pages topts) 2)
   \<and> list_all continues (butlast (calls (thread_events env tweetId topts s)))
   \<and> int (length (calls_to ''/twitter/user/last_tweets'' (profile_events env uname popts s)))
        \<le> max 0 (pagesToFetch (num_or (profile_count popts) 20))
   \<and> list_all continues (butlast (calls_to ''/twitter/user/last_tweets'' (profile_events env uname popts s)))
   \<and> (pages opts = Some 1 \<longrightarrow> length (calls (search_events env query opts s)) \<le> 1)
   \<and> (thread_pages topts = Some 1 \<longrightarrow> length (calls (thread_events env tweetId topts s)) \<le> 1)
   \<and> (pagesToFetch (num_or (profile_count popts) 20) = 1 \<longrightarrow>
        length (calls_to ''/twitter/user/last_tweets'' (profile_events env uname popts s)) \<le> 1)"
proof -
  have loop: "int (length (calls (loop_events env path fixed field pgs page cursor acc s))) \<le> max 0 (pgs - page)"
    "list_all continues (butlast (calls (loop_events env path fixed field pgs page cursor acc s)))"
    using loop_events_props [of env path fixed field pgs page cursor acc s] by blast+
  have se: "int (length (calls (search_events env query opts s))) \<le> max 0 (num_or (pages opts) 1)"
    "list_all continues (butlast (calls (search_events env query opts s)))"
    unfolding search_events_loop
    using loop_events_props [of env "''/twitter/tweet/advanced_search''" _ "''tweets''" "num_or (pages opts) 1" 0 "JStr []" "[]" s]
    by simp_all
  have th: "int (length (calls (thread_events env tweetId topts s))) \<le> max 0 (num_or (thread_pages topts) 2)"
    "list_all continues (butlast (calls (thread_events env tweetId topts s)))"
    unfolding thread_events_loop
    using loop_events_props [of env "''/twitter/tweet/thread_context''" _ "''replies''" "num_or (thread_pages topts) 2" 0 "JStr []" "[]" s]
    by simp_all
  have pr: "int (length (calls_to ''/twitter/user/last_tweets'' (profile_events env uname popts s)))
        \<le> max 0 (pagesToFetch (num_or (profile_count popts) 20))
    \<and> list_all continues (butlast (calls_to ''/twitter/user/last_tweets'' (profile_events env uname popts s)))"
  proof -
    from profile_page_calls [of env uname popts s] obtain s2 where
      "calls_to ''/twitter/user/last_tweets'' (profile_events env uname popts s) = []
     \<or> calls_to ''/twitter/user/last_tweets'' (profile_events env uname popts s) =
        calls (loop_events env ''/twitter/user/last_tweets''
             [(''userName'', JStr uname),
              (''includeReplies'', JStr (if includeReplies popts = Some True then ''true'' else ''false''))]
             ''tweets'' (pagesToFetch (num_or (profile_count popts) 20)) 0 (JStr []) [] s2)"
      by blast
    then show ?thesis
    proof
      assume "calls_to ''/twitter/user/last_tweets'' (profile_events env uname popts s) = []"
      then show ?thesis by simp
    next
      assume e: "calls_to ''/twitter/user/last_tweets'' (profile_events env uname popts s) =
        calls (loop_events env ''/twitter/user/last_tweets''
             [(''userName'', JStr uname),
              (''includeReplies'', JStr (if includeReplies popts = Some True then ''true'' else ''false''))]
             ''tweets'' (pagesToFetch (num_or (profile_count popts) 20)) 0 (JStr []) [] s2)"
      show ?thesis
        unfolding e
        using loop_events_props [of env "''/twitter/user/last_tweets''" _ "''tweets''"
            "pagesToFetch (num_or (profile_count popts) 20)" 0 "JStr []" "[]" s2]
        by simp
    qed
  qed
  have s1: "pages opts = Some 1 \<longrightarrow> length (calls (search_events env query opts s)) \<le> 1"
    using se(1) by (auto simp: num_or_def)
  have t1: "thread_pages topts = Some 1 \<longrightarrow> length (calls (thread_events env tweetId topts s)) \<le> 1"
    using th(1) by (auto simp: num_or_def)
  have p1: "pagesToFetch (num_or (profile_count popts) 20) = 1 \<longrightarrow>
        length (calls_to ''/twitter/user/last_tweets'' (profile_events env uname popts s)) \<le> 1"
    using pr by auto
  from loop se th pr s1 t1 p1 show ?thesis by blast
qed

lemmas run_defs =
  search_def thread_def profile_def fullQuery_def since_filter_def since_given_def max_results_cut_def
  page_loop_iter page_loop_stop page_step_def apiGet_def apiGet_outcome_def sleep_def
  script_env_def script_parseTweet_def start_state_def ok_response_def page_of_def raw_tweet_def
  no_opts_def num_or_def slice0_def pagesToFetch_def RATE_DELAY_MS_def
  search_events_def thread_events_def profile_events_def loop_events_def new_events_def
  calls_def calls_to_def str_of_def Let_def

theorem pagination_three_stops_witness:
  "pages (no_opts\<lparr>pages := Some 1\<rparr>) = Some 1
   \<and> thread_pages \<lparr>thread_pages = Some 1\<rparr> = Some 1
   \<and> pagesToFetch (num_or (profile_count \<lparr>profile_count = Some 5, includeReplies = None\<rparr>) 20) = 1
   \<and> length (calls (search_events script_env ''cats'' (no_opts\<lparr>pages := Some 1\<rparr>)
         (start_state [ok_response (page_of [raw_tweet ''1'' ''5''] True []),
                       ok_response (page_of [raw_tweet ''2'' ''6''] False [])]))) \<le> 1
   \<and> length (calls (thread_events script_env ''1'' \<lparr>thread_pages = Some 1\<rparr>
         (start_state [ok_response (page_of [raw_tweet ''1'' ''5''] True []),
                       ok_response (page_of [raw_tweet ''2'' ''6''] False [])]))) \<le> 1
   \<and> length (calls_to ''/twitter/user/last_tweets''
         (profile_events script_env ''x'' \<lparr>profile_count = Some 5, includeReplies = None\<rparr>
           (start_state [ok_response (JObj [(''data'', JObj [])]),
                         ok_response (page_of [raw_tweet ''1'' ''5''] True []),
                         ok_response (page_of [raw_tweet ''2'' ''6''] False [])]))) \<le> 1"
  using pagination_three_stops
    [where env = script_env and query = "''cats''" and opts = "no_opts\<lparr>pages := Some 1\<rparr>"
       and s = "start_state [ok_response (page_of [raw_tweet ''1'' ''5''] True []),
                       ok_response (page_of [raw_tweet ''2'' ''6''] False [])]"
       and tweetId = "''1''" and topts = "\<lparr>thread_pages = Some 1\<rparr>"]
    pagination_three_stops
    [where env = script_env and uname = "''x''"
       and popts = "\<lparr>profile_count = Some 5, includeReplies = None\<rparr>"
       and s = "start_state [ok_response (JObj [(''data'', JObj [])]),
                         ok_response (page_of [raw_tweet ''1'' ''5''] True []),
                         ok_response (page_of [raw_tweet ''2'' ''6''] False [])]"]
  by (simp add: no_opts_def pagesToFetch_def num_or_def)

lemma loop_events_trace:
  "trace (snd (page_loop env path fixed field pgs page cursor acc s))
      = trace s @ loop_events env path fixed field pgs page cursor acc s"
  using loop_events_props [of env path fixed field pgs page cursor acc s] by blast

lemma loop_events_paced: "paced (loop_events env path fixed field pgs page cursor acc s)"
  using loop_events_props [of env path fixed field pgs page cursor acc s] by blast

text \<open>
  C5.  The waits of a paginated fetch.  The delay is 200 ms.  The events of the
  loop, and so of \<open>search\<close> and of \<open>thread\<close>, are transport calls with exactly one wait
  of that delay between two consecutive calls and none after the last call, whether
  the last call is the last page of the budget, a page that ended the loop by a false
  continuation flag or a missing cursor, or a call that failed.  \<open>profile\<close> makes its
  user lookup, and when the lookup succeeds one wait and then the calls of the loop,
  which are paced in the same way.
\<close>

theorem fetches_are_paced:
  "RATE_DELAY_MS = 200
   \<and> trace (snd (page_loop env path fixed field pgs page cursor acc s))
        = trace s @ loop_events env path fixed field pgs page cursor acc s
   \<and> paced (loop_events env path fixed field pgs page cursor acc s)
   \<and> trace (snd (search env query opts s)) = trace s @ search_events env query opts s
   \<and> paced (search_events env query opts s)
   \<and> trace (snd (thread env tweetId topts s)) = trace s @ thread_events env tweetId topts s
   \<and> paced (thread_events env tweetId topts s)
   \<and> (\<exists>r. profile_events env uname popts s = [Call ''/twitter/user/info'' [(''userName'', JStr uname)] r]
         \<or> (\<exists>ev. profile_events env uname popts s =
               Call ''/twitter/user/info'' [(''userName'', JStr uname)] r # Sleep RATE_DELAY_MS # ev
             \<and> paced ev))"
proof -
  have se: "trace (snd (search env query opts s)) = trace s @ search_events env query opts s"
    unfolding search_events_loop search_state by (rule loop_events_trace)
  have sp: "paced (search_events env query opts s)"
    unfolding search_events_loop by (rule loop_events_paced)
  have te: "trace (snd (thread env tweetId topts s)) = trace s @ thread_events env tweetId topts s"
    unfolding thread_events_loop by (simp add: thread_def Let_def loop_events_trace)
  have tp: "paced (thread_events env tweetId topts s)"
    unfolding thread_events_loop by (rule loop_events_paced)
  have pr: "\<exists>r. profile_events env uname popts s = [Call ''/twitter/user/info'' [(''userName'', JStr uname)] r]
         \<or> (\<exists>ev. profile_events env uname popts s =
               Call ''/twitter/user/info'' [(''userName'', JStr uname)] r # Sleep RATE_DELAY_MS # ev
             \<and> paced ev)"
    using profile_events_shape [of env uname popts s] loop_events_paced by metis
  show ?thesis
    using se sp te tp pr loop_events_trace [of env path fixed field pgs page cursor acc s]
      loop_events_paced [of env path fixed field pgs page cursor acc s]
    by (simp add: RATE_DELAY_MS_def)
qed

lemma parseTweets_not_array: "\<not> is_array v \<Longrightarrow> parseTweets env v = Inr []"
  by (cases v) simp_all

lemma get_prop_twice: "get_prop raw k = Inr v \<Longrightarrow> \<exists>x. get_prop raw k' = Inr x"
  by (cases raw) simp_all

lemma get_prop_fails_iff: "(\<exists>e. get_prop raw k = Inl e) = (raw = JNull \<or> raw = JUndefined)"
  by (cases raw) simp_all

lemma page_step_empty_page:
  assumes a: "apiGet env path (fixed @ (if truthy cursor then [(''cursor'', cursor)] else [])) s = (Inr raw, s1)"
    and f: "get_prop raw field = Inr v" and n: "\<not> is_array v"
  shows "page_step env path fixed field cursor acc s =
     (if continues (Call path (fixed @ (if truthy cursor then [(''cursor'', cursor)] else [])) (Inr raw))
      then Continue (projr (get_prop raw ''next_cursor'')) acc s1 else Done acc s1)"
proof -
  obtain h where h: "get_prop raw ''has_next_page'' = Inr h" using get_prop_twice [OF f] by blast
  obtain c where c: "get_prop raw ''next_cursor'' = Inr c" using get_prop_twice [OF f] by blast
  show ?thesis
    using a f h c by (simp add: page_step_def parseTweets_not_array [OF n])
qed

text \<open>
  C8, as the code has it.  A page response other than a \<^verbatim>\<open>null\<close> body whose
  record-list field is absent (it reads as \<^verbatim>\<open>undefined\<close>) or is not a list contributes
  no records and is no failure.  \<open>parseTweets\<close> gives the empty sequence for every
  value that is not an array, whatever the normalisation does.  When a call returns a
  response on which the field can be read, which by \<open>get_prop_fails_iff\<close> is every
  JSON value except \<^verbatim>\<open>null\<close>, and the field is not an array, the step of the loop does
  not fail and leaves the accumulated records as they are; the loop then goes on or
  stops by the continuation flag, the next cursor and the page budget alone.
\<close>

theorem missing_record_list_is_empty_page:
  "(\<not> is_array v \<longrightarrow> parseTweets env v = Inr [])
   \<and> (apiGet env path (fixed @ (if truthy cursor then [(''cursor'', cursor)] else [])) s = (Inr raw, st)
        \<and> get_prop raw field = Inr v \<and> \<not> is_array v \<longrightarrow>
        page_step env path fixed field cursor acc s =
          (if continues (Call path (fixed @ (if truthy cursor then [(''cursor'', cursor)] else [])) (Inr raw))
           then Continue (projr (get_prop raw ''next_cursor'')) acc st else Done acc st)
        \<and> (page < pgs \<longrightarrow>
             page_loop env path fixed field pgs page cursor acc s =
               (if continues (Call path (fixed @ (if truthy cursor then [(''cursor'', cursor)] else [])) (Inr raw))
                then page_loop env path fixed field pgs (page + 1) (projr (get_prop raw ''next_cursor'')) acc
                       (if page < pgs - 1 then sleep env RATE_DELAY_MS st else st)
                else (Inr acc, st))))"
proof -
  have one: "\<not> is_array v \<longrightarrow> parseTweets env v = Inr []"
    by (simp add: parseTweets_not_array)
  have two: "page_step env path fixed field cursor acc s =
          (if continues (Call path (fixed @ (if truthy cursor then [(''cursor'', cursor)] else [])) (Inr raw))
           then Continue (projr (get_prop raw ''next_cursor'')) acc st else Done acc st)"
    if "apiGet env path (fixed @ (if truthy cursor then [(''cursor'', cursor)] else [])) s = (Inr raw, st)"
      and "get_prop raw field = Inr v" and "\<not> is_array v"
    using that by (rule page_step_empty_page)
  have three: "page_loop env path fixed field pgs page cursor acc s =
               (if continues (Call path (fixed @ (if truthy cursor then [(''cursor'', cursor)] else [])) (Inr raw))
                then page_loop env path fixed field pgs (page + 1) (projr (get_prop raw ''next_cursor'')) acc
                       (if page < pgs - 1 then sleep env RATE_DELAY_MS st else st)
                else (Inr acc, st))"
    if "apiGet env path (fixed @ (if truthy cursor then [(''cursor'', cursor)] else [])) s = (Inr raw, st)"
      and "get_prop raw field = Inr v" and "\<not> is_array v" and "page < pgs"
    using that two by (simp add: page_loop_iter)
  from one two three show ?thesis by blast
qed

theorem missing_record_list_is_empty_page_witness:
  "apiGet script_env ''/twitter/tweet/advanced_search'' ([(''query'', JStr ''cats''), (''queryType'', JStr ''Top'')] @ (if truthy (JStr []) then [(''cursor'', JStr [])] else []))
       (start_state [ok_response (JObj [(''has_next_page'', JBool True), (''next_cursor'', JStr ''c1'')]),
                     ok_response (page_of [raw_tweet ''2'' ''6''] False [])])
     = (Inr (JObj [(''has_next_page'', JBool True), (''next_cursor'', JStr ''c1'')]),
        \<lparr>world = \<lparr>pending = [ok_response (page_of [raw_tweet ''2'' ''6''] False [])], clock = 2000000000\<rparr>,
         trace = [Call ''/twitter/tweet/advanced_search'' [(''query'', JStr ''cats''), (''queryType'', JStr ''Top'')]
                   (Inr (JObj [(''has_next_page'', JBool True), (''next_cursor'', JStr ''c1'')]))]\<rparr>)
   \<and> get_prop (JObj [(''has_next_page'', JBool True), (''next_cursor'', JStr ''c1'')]) ''tweets'' = Inr JUndefined
   \<and> \<not> is_array JUndefined
   \<and> (0::int) < 2
   \<and> parseTweets script_env JUndefined = Inr []
   \<and> fst (search script_env ''cats'' (no_opts\<lparr>pages := Some 2\<rparr>)
       (start_state [ok_response (JObj [(''has_next_page'', JBool True), (''next_cursor'', JStr ''c1'')]),
                     ok_response (page_of [raw_tweet ''2'' ''6''] False [])]))
      = Inr [script_tweet ''2'' ''6'']"
  using missing_record_list_is_empty_page
    [where env = script_env and v = JUndefined and path = "''/twitter/tweet/advanced_search''"
       and fixed = "[(''query'', JStr ''cats''), (''queryType'', JStr ''Top'')]" and cursor = "JStr []"
       and s = "start_state [ok_response (JObj [(''has_next_page'', JBool True), (''next_cursor'', JStr ''c1'')]),
                     ok_response (page_of [raw_tweet ''2'' ''6''] False [])]"
       and raw = "JObj [(''has_next_page'', JBool True), (''next_cursor'', JStr ''c1'')]"
       and field = "''tweets''" and page = 0 and pgs = 2 and acc = "[]"
       and st = "\<lparr>world = \<lparr>pending = [ok_response (page_of [raw_tweet ''2'' ''6''] False [])], clock = 2000000000\<rparr>,
         trace = [Call ''/twitter/tweet/advanced_search'' [(''query'', JStr ''cats''), (''queryType'', JStr ''Top'')]
                   (Inr (JObj [(''has_next_page'', JBool True), (''next_cursor'', JStr ''c1'')]))]\<rparr>"]
  by (simp add: run_defs)

text \<open>
  A \<^verbatim>\<open>null\<close> body has no record-list field, and it is a failure: reading
  \<^verbatim>\<open>raw.tweets\<close> on it raises a TypeError, which ends the fetch.  On the first page the
  search fails; on the second page it fails too, and the record of the first page is
  not returned.
\<close>

theorem null_body_counterexample:
  "get_prop JNull ''tweets'' = Inl TypeError
   \<and> fst (search script_env ''cats'' no_opts (start_state [ok_response JNull])) = Inl TypeError
   \<and> fst (search script_env ''cats'' (no_opts\<lparr>pages := Some 2\<rparr>)
        (start_state [ok_response (page_of [raw_tweet ''1'' ''7''] True ''c1''), ok_response JNull]))
      = Inl TypeError"
  by (simp add: run_defs)

lemma loop_calls_nonempty:
  "page < pgs \<Longrightarrow> calls (loop_events env path fixed field pgs page cursor acc s) \<noteq> []"
  using loop_events_props [of env path fixed field pgs page cursor acc s]
  by (intro paced_starts_with_call) blast+

text \<open>
  C9.  A numeric option given as 0 is read as if it were not given.  \<open>search\<close> with
  \<^verbatim>\<open>pages = 0\<close> runs exactly as without \<^verbatim>\<open>pages\<close> and makes exactly one transport call;
  \<open>thread\<close> with \<^verbatim>\<open>pages = 0\<close> runs as without \<^verbatim>\<open>pages\<close> and makes one or two calls;
  \<open>profile\<close> with \<^verbatim>\<open>count = 0\<close> runs as without \<^verbatim>\<open>count\<close> and as with \<^verbatim>\<open>count = 20\<close>;
  \<open>search\<close> with \<^verbatim>\<open>maxResults = 0\<close> runs as without \<^verbatim>\<open>maxResults\<close>: the sequence is
  not cut.
\<close>

theorem zero_options_read_as_absent:
  "search env query (opts\<lparr>pages := Some 0\<rparr>) s = search env query (opts\<lparr>pages := None\<rparr>) s
   \<and> length (calls (search_events env query (opts\<lparr>pages := Some 0\<rparr>) s)) = 1
   \<and> thread env tweetId (topts\<lparr>thread_pages := Some 0\<rparr>) s
        = thread env tweetId (topts\<lparr>thread_pages := None\<rparr>) s
   \<and> 1 \<le> length (calls (thread_events env tweetId (topts\<lparr>thread_pages := Some 0\<rparr>) s))
   \<and> length (calls (thread_events env tweetId (topts\<lparr>thread_pages := Some 0\<rparr>) s)) \<le> 2
   \<and> profile env uname (popts\<lparr>profile_count := Some 0\<rparr>) s
        = profile env uname (popts\<lparr>profile_count := None\<rparr>) s
   \<and> profile env uname (popts\<lparr>profile_count := Some 0\<rparr>) s
        = profile env uname (popts\<lparr>profile_count := Some 20\<rparr>) s
   \<and> search env query (opts\<lparr>maxResults := Some 0\<rparr>) s
        = search env query (opts\<lparr>maxResults := None\<rparr>) s
   \<and> max_results_cut (opts\<lparr>maxResults := Some 0\<rparr>) ts = ts"
proof -
  have s0: "search env query (opts\<lparr>pages := Some 0\<rparr>) s = search env query (opts\<lparr>pages := None\<rparr>) s"
    by (simp add: search_def fullQuery_def since_filter_def since_given_def max_results_cut_def num_or_def
        split: prod.splits sum.splits)
  have "calls (search_events env query (opts\<lparr>pages := Some 0\<rparr>) s) \<noteq> []"
    unfolding search_events_loop by (rule loop_calls_nonempty) (simp add: num_or_def)
  moreover have "int (length (calls (search_events env query (opts\<lparr>pages := Some 0\<rparr>) s))) \<le> max 0 (num_or (pages (opts\<lparr>pages := Some 0\<rparr>)) 1)"
    unfolding search_events_loop
    using loop_events_props [of env "''/twitter/tweet/advanced_search''" _ "''tweets''" "num_or (pages (opts\<lparr>pages := Some 0\<rparr>)) 1" 0 "JStr []" "[]" s]
    by simp
  ultimately have s1: "length (calls (search_events env query (opts\<lparr>pages := Some 0\<rparr>) s)) = 1"
    by (cases "calls (search_events env query (opts\<lparr>pages := Some 0\<rparr>) s)") (simp_all add: num_or_def)
  have t0: "thread env tweetId (topts\<lparr>thread_pages := Some 0\<rparr>) s
        = thread env tweetId (topts\<lparr>thread_pages := None\<rparr>) s"
    by (simp add: thread_def num_or_def)
  have "calls (thread_events env tweetId (topts\<lparr>thread_pages := Some 0\<rparr>) s) \<noteq> []"
    unfolding thread_events_loop by (rule loop_calls_nonempty) (simp add: num_or_def)
  then have t1: "1 \<le> length (calls (thread_events env tweetId (topts\<lparr>thread_pages := Some 0\<rparr>) s))"
    by (cases "calls (thread_events env tweetId (topts\<lparr>thread_pages := Some 0\<rparr>) s)") simp_all
  have "int (length (calls (thread_events env tweetId (topts\<lparr>thread_pages := Some 0\<rparr>) s)))
      \<le> max 0 (num_or (thread_pages (topts\<lparr>thread_pages := Some 0\<rparr>)) 2)"
    unfolding thread_events_loop
    using loop_events_props [of env "''/twitter/tweet/thread_context''" _ "''replies''" "num_or (thread_pages (topts\<lparr>thread_pages := Some 0\<rparr>)) 2" 0 "JStr []" "[]" s]
    by simp
  then have t2: "length (calls (thread_events env tweetId (topts\<lparr>thread_pages := Some 0\<rparr>) s)) \<le> 2"
    by (simp add: num_or_def)
  have p0: "profile env uname (popts\<lparr>profile_count := Some 0\<rparr>) s
        = profile env uname (popts\<lparr>profile_count := None\<rparr>) s"
    by (simp add: profile_def num_or_def cong: prod.case_cong sum.case_cong if_cong)
  have p1: "profile env uname (popts\<lparr>profile_count := Some 0\<rparr>) s
        = profile env uname (popts\<lparr>profile_count := Some 20\<rparr>) s"
    by (simp add: profile_def num_or_def cong: prod.case_cong sum.case_cong if_cong)
  have m0: "search env query (opts\<lparr>maxResults := Some 0\<rparr>) s
        = search env query (opts\<lparr>maxResults := None\<rparr>) s"
    by (simp add: search_def fullQuery_def since_filter_def since_given_def max_results_cut_def
        split: prod.splits sum.splits)
  have m1: "max_results_cut (opts\<lparr>maxResults := Some 0\<rparr>) ts = ts"
    by (simp add: max_results_cut_def)
  from s0 s1 t0 t1 t2 p0 p1 m0 m1 show ?thesis by blast
qed

theorem zero_options_read_as_absent_witness:
  "calls (search_events script_env ''cats'' (no_opts\<lparr>pages := Some 0\<rparr>)
       (start_state [ok_response (page_of [raw_tweet ''1'' ''7''] True ''c1''),
                     ok_response (page_of [raw_tweet ''2'' ''5''] False [])]))
     = [Call ''/twitter/tweet/advanced_search'' [(''query'', JStr ''cats''), (''queryType'', JStr ''Top'')]
          (Inr (page_of [raw_tweet ''1'' ''7''] True ''c1''))]
   \<and> length (calls (thread_events script_env ''1'' \<lparr>thread_pages = Some 0\<rparr>
       (start_state [ok_response (JObj [(''replies'', JArr [raw_tweet ''1'' ''7'']),
                                        (''has_next_page'', JBool True), (''next_cursor'', JStr ''c1'')]),
                     ok_response (JObj [(''replies'', JArr [raw_tweet ''2'' ''5'']),
                                        (''has_next_page'', JBool True), (''next_cursor'', JStr ''c2'')]),
                     ok_response (JObj [(''replies'', JArr [raw_tweet ''3'' ''6'']),
                                        (''has_next_page'', JBool False), (''next_cursor'', JStr [])])]))) = 2
   \<and> fst (profile script_env ''x'' \<lparr>profile_count = Some 0, includeReplies = None\<rparr>
           (start_state [ok_response (JObj [(''data'', JObj [(''userName'', JStr ''x'')])]),
                         ok_response (page_of [raw_tweet ''1'' ''7''] True ''c1''),
                         ok_response (page_of [raw_tweet ''2'' ''5''] False [])]))
     = fst (profile script_env ''x'' \<lparr>profile_count = Some 20, includeReplies = None\<rparr>
           (start_state [ok_response (JObj [(''data'', JObj [(''userName'', JStr ''x'')])]),
                         ok_response (page_of [raw_tweet ''1'' ''7''] True ''c1''),
                         ok_response (page_of [raw_tweet ''2'' ''5''] False [])]))
   \<and> length (calls_to ''/twitter/user/last_tweets''
         (profile_events script_env ''x'' \<lparr>profile_count = Some 0, includeReplies = None\<rparr>
           (start_state [ok_response (JObj [(''data'', JObj [(''userName'', JStr ''x'')])]),
                         ok_response (page_of [raw_tweet ''1'' ''7''] True ''c1''),
                         ok_response (page_of [raw_tweet ''2'' ''5''] False [])]))) = 1
   \<and> fst (search script_env ''cats'' (no_opts\<lparr>maxResults := Some 0\<rparr>)
       (start_state [ok_response (page_of [raw_tweet ''1'' ''7'', raw_tweet ''2'' ''5''] False [])]))
     = Inr [script_tweet ''1'' ''7'', script_tweet ''2'' ''5'']"
  using zero_options_read_as_absent
    [where env = script_env and query = "''cats''" and opts = no_opts
       and s = "start_state [ok_response (page_of [raw_tweet ''1'' ''7''] True ''c1''),
                     ok_response (page_of [raw_tweet ''2'' ''5''] False [])]"]
    zero_options_read_as_absent
    [where env = script_env and uname = "''x''"
       and popts = "\<lparr>profile_count = Some 0, includeReplies = None\<rparr>"
       and s = "start_state [ok_response (JObj [(''data'', JObj [(''userName'', JStr ''x'')])]),
                         ok_response (page_of [raw_tweet ''1'' ''7''] True ''c1''),
                         ok_response (page_of [raw_tweet ''2'' ''5''] False [])]"]
  by (simp add: run_defs set_field_def js_or_def)

lemma slice0_subset: "set (slice0 xs n) \<subseteq> set xs"
  by (auto simp: slice0_def dest: in_set_takeD)

lemma max_results_cut_subset: "set (max_results_cut opts xs) \<subseteq> set xs"
  by (simp add: max_results_cut_def slice0_subset split: option.splits)

lemma search_result_filtered:
  assumes "since opts = Some sv" "sv \<noteq> []" "search env query opts s = (Inr ts, s1)"
    "parseSinceDate env (world s1) sv = Some cutoff"
  shows "set ts \<subseteq> {t. not_older env cutoff t}"
proof -
  from assms(3) obtain allTweets where
    "ts = max_results_cut opts (since_filter env (world s1) opts allTweets)"
    by (auto simp: search_def Let_def split: prod.splits sum.splits)
  moreover have "since_filter env (world s1) opts allTweets = filter (not_older env cutoff) allTweets"
    using assms(1,2,4) by (simp add: since_filter_def since_given_def)
  ultimately show ?thesis using max_results_cut_subset [of opts "filter (not_older env cutoff) allTweets"]
    by auto
qed

lemma parseSinceDate_Some_iff:
  "(\<exists>cutoff. parseSinceDate env w sv = Some cutoff) =
     (match_shorthand sv \<noteq> None
      \<or> ((str_includes sv ''T'' \<or> str_includes sv ''-'') \<and> Date_parse env sv \<noteq> None))"
  by (auto simp: parseSinceDate_def split: option.splits)

lemma unparsed_since_not_filtered:
  "parseSinceDate env w sv = None \<Longrightarrow> since opts = Some sv \<Longrightarrow>
   since_filter env w opts allTweets = allTweets"
  by (simp add: since_filter_def since_given_def)

text \<open>
  C2, as the code has it.  When \<^verbatim>\<open>opts.since\<close> is given (a non-empty string) and
  \<^verbatim>\<open>parseSinceDate\<close>, called after the last page, computes a cutoff from it, every record
  \<open>search\<close> returns has a creation time that parses and is at or after that cutoff,
  and the cutoff is a valid date.  Nothing is assumed about the responses of the
  service.  By \<open>parseSinceDate_Some_iff\<close> a cutoff is computed exactly when the value
  is digits followed by m, h or d, or contains T or - and parses as a date.
\<close>

theorem since_filter_backstop:
  assumes "since opts = Some sv" and "sv \<noteq> []"
    and "search env query opts s = (Inr ts, st)"
    and "parseSinceDate env (world st) sv = Some cutoff"
  shows "\<forall>t \<in> set ts. \<exists>x c. Date_parse env (created_at t) = Some x \<and> cutoff = Some c \<and> c \<le> x"
proof
  fix t assume "t \<in> set ts"
  with search_result_filtered [OF assms] have "not_older env cutoff t" by auto
  then show "\<exists>x c. Date_parse env (created_at t) = Some x \<and> cutoff = Some c \<and> c \<le> x"
    by (auto simp: not_older_def time_ge_def split: option.splits)
qed

lemmas since_defs =
  parseSinceDate_def parseSince_def match_shorthand_def is_digit_def parseInt_def shorthand_ms_def
  new_Date_def not_older_def time_ge_def String_num_def show_int_def padStart2_def script_tweet_def

theorem since_filter_backstop_witness:
  "since (no_opts\<lparr>since := Some ''1h''\<rparr>) = Some ''1h'' \<and> ''1h'' \<noteq> []
   \<and> search script_env ''cats'' (no_opts\<lparr>since := Some ''1h''\<rparr>)
        (start_state [ok_response (page_of [raw_tweet ''1'' ''1999999999'', raw_tweet ''2'' ''5'',
                                            raw_tweet ''3'' ''1996400000''] False [])])
      = (Inr [script_tweet ''1'' ''1999999999'', script_tweet ''3'' ''1996400000''],
         \<lparr>world = \<lparr>pending = [], clock = 2000000000\<rparr>,
          trace = [Call ''/twitter/tweet/advanced_search''
                     [(''query'', JStr ''cats since:1970-01-24_02:33:20_UTC''), (''queryType'', JStr ''Top'')]
                     (Inr (page_of [raw_tweet ''1'' ''1999999999'', raw_tweet ''2'' ''5'',
                                    raw_tweet ''3'' ''1996400000''] False []))]\<rparr>)
   \<and> parseSinceDate script_env \<lparr>pending = [], clock = 2000000000\<rparr> ''1h'' = Some (Some 1996400000)
   \<and> Date_parse script_env (created_at (script_tweet ''1'' ''1999999999'')) = Some 1999999999
   \<and> Date_parse script_env (created_at (script_tweet ''3'' ''1996400000'')) = Some 1996400000
   \<and> (1996400000::int) \<le> 1999999999"
  using since_filter_backstop
    [where opts = "no_opts\<lparr>since := Some ''1h''\<rparr>" and sv = "''1h''" and env = script_env
      and query = "''cats''"
      and s = "start_state [ok_response (page_of [raw_tweet ''1'' ''1999999999'', raw_tweet ''2'' ''5'',
                                            raw_tweet ''3'' ''1996400000''] False [])]"
      and ts = "[script_tweet ''1'' ''1999999999'', script_tweet ''3'' ''1996400000'']"
      and st = "\<lparr>world = \<lparr>pending = [], clock = 2000000000\<rparr>,
          trace = [Call ''/twitter/tweet/advanced_search''
                     [(''query'', JStr ''cats since:1970-01-24_02:33:20_UTC''), (''queryType'', JStr ''Top'')]
                     (Inr (page_of [raw_tweet ''1'' ''1999999999'', raw_tweet ''2'' ''5'',
                                    raw_tweet ''3'' ''1996400000''] False []))]\<rparr>"
      and cutoff = "Some 1996400000"]
  by (simp add: run_defs since_defs)

text \<open>
  For any other value of \<^verbatim>\<open>opts.since\<close> there is no cutoff and nothing is filtered
  (\<open>unparsed_since_not_filtered\<close>).  With \<^verbatim>\<open>since = "1w"\<close> and the clock at
  2000000000 ms the search returns a record created at 5 ms, more than a week before.
\<close>

theorem since_unparsed_counterexample:
  "since (no_opts\<lparr>since := Some ''1w''\<rparr>) = Some ''1w''
   \<and> parseSinceDate script_env \<lparr>pending = [], clock = 2000000000\<rparr> ''1w'' = None
   \<and> fst (search script_env ''cats'' (no_opts\<lparr>since := Some ''1w''\<rparr>)
        (start_state [ok_response (page_of [raw_tweet ''1'' ''1999999999'', raw_tweet ''2'' ''5''] False [])]))
      = Inr [script_tweet ''1'' ''1999999999'', script_tweet ''2'' ''5'']
   \<and> Date_parse script_env (created_at (script_tweet ''2'' ''5'')) = Some 5
   \<and> (5::int) < 2000000000 - 7 * 86400000"
  by (simp add: run_defs since_defs)

lemma sent_param_fixed:
  "list_all (call_to path fixed) ev \<Longrightarrow> map_of fixed k = Some v \<Longrightarrow>
   map (sent_param k) (calls ev) = replicate (length (calls ev)) (Some v)"
proof (induction ev)
  case Nil
  then show ?case by (simp add: calls_def)
next
  case (Cons e ev)
  show ?case
  proof (cases e)
    case (Call p ps r)
    with Cons.prems have "prefix fixed ps" by simp
    then obtain zs where "ps = fixed @ zs" by (auto simp: prefix_def)
    with Cons.prems(2) have "map_of ps k = Some v" by (simp add: map_add_Some_iff)
    with Cons Call show ?thesis by (simp add: calls_def)
  next
    case (Sleep ms)
    with Cons show ?thesis by (simp add: calls_def)
  qed
qed

text \<open>
  C10, as the code has it.  When \<^verbatim>\<open>opts.since\<close> is given and the query already contains
  \<^verbatim>\<open>since:\<close>, the query is sent as the caller wrote it: every transport call of the
  search carries the unchanged query.  The filter on the creation time is applied all
  the same whenever \<^verbatim>\<open>parseSinceDate\<close> computes a cutoff from \<^verbatim>\<open>opts.since\<close>: every
  returned record is then not older than that cutoff.
\<close>

theorem caller_since_operator_kept:
  assumes "since opts = Some sv" and "sv \<noteq> []" and "str_includes query ''since:''"
  shows "fullQuery env (world s) query opts = query
    \<and> map (sent_param ''query'') (calls (search_events env query opts s))
        = replicate (length (calls (search_events env query opts s))) (Some (JStr query))
    \<and> (\<forall>ts st cutoff.
          search env query opts s = (Inr ts, st) \<and> parseSinceDate env (world st) sv = Some cutoff
          \<longrightarrow> list_all (not_older env cutoff) ts)"
proof -
  have fq: "fullQuery env (world s) query opts = query"
    using assms by (simp add: fullQuery_def since_given_def split: option.splits)
  have "list_all (call_to ''/twitter/tweet/advanced_search''
          [(''query'', JStr query),
           (''queryType'', JStr (if sortOrder opts = Some Recency then ''Latest'' else ''Top''))])
        (search_events env query opts s)"
    unfolding search_events_loop fq
    using loop_events_props [of env "''/twitter/tweet/advanced_search''" _ "''tweets''" _ 0 "JStr []" "[]" s]
    by blast
  then have sent: "map (sent_param ''query'') (calls (search_events env query opts s))
        = replicate (length (calls (search_events env query opts s))) (Some (JStr query))"
    by (rule sent_param_fixed) simp
  have filt: "list_all (not_older env cutoff) ts"
    if "search env query opts s = (Inr ts, st)" and "parseSinceDate env (world st) sv = Some cutoff"
    for ts st cutoff
    using search_result_filtered [OF assms(1,2) that] by (auto simp: list_all_iff)
  from fq sent filt show ?thesis by blast
qed

theorem caller_since_operator_kept_witness:
  "since (no_opts\<lparr>since := Some ''1h''\<rparr>) = Some ''1h'' \<and> ''1h'' \<noteq> []
   \<and> str_includes ''cats since:2020-01-01'' ''since:''
   \<and> search script_env ''cats since:2020-01-01'' (no_opts\<lparr>since := Some ''1h''\<rparr>)
        (start_state [ok_response (page_of [raw_tweet ''1'' ''1999999999'', raw_tweet ''2'' ''5''] False [])])
      = (Inr [script_tweet ''1'' ''1999999999''],
         \<lparr>world = \<lparr>pending = [], clock = 2000000000\<rparr>,
          trace = [Call ''/twitter/tweet/advanced_search''
                     [(''query'', JStr ''cats since:2020-01-01''), (''queryType'', JStr ''Top'')]
                     (Inr (page_of [raw_tweet ''1'' ''1999999999'', raw_tweet ''2'' ''5''] False []))]\<rparr>)
   \<and> map (sent_param ''query'') (calls (search_events script_env ''cats since:2020-01-01''
          (no_opts\<lparr>since := Some ''1h''\<rparr>)
          (start_state [ok_response (page_of [raw_tweet ''1'' ''1999999999'', raw_tweet ''2'' ''5''] False [])])))
      = [Some (JStr ''cats since:2020-01-01'')]"
  using caller_since_operator_kept
    [where opts = "no_opts\<lparr>since := Some ''1h''\<rparr>" and sv = "''1h''" and env = script_env
      and query = "''cats since:2020-01-01''"
      and s = "start_state [ok_response (page_of [raw_tweet ''1'' ''1999999999'', raw_tweet ''2'' ''5''] False [])]"]
  by (simp add: run_defs since_defs)

text \<open>
  When no cutoff can be computed the filter is not applied, with or without an
  operator in the query: with \<^verbatim>\<open>since = "1w"\<close> and a query that contains \<^verbatim>\<open>since:\<close>,
  the search returns a record created more than a week before the clock's time.
\<close>

theorem since_unparsed_kept_query_counterexample:
  "since (no_opts\<lparr>since := Some ''1w''\<rparr>) = Some ''1w''
   \<and> str_includes ''cats since:2020-01-01'' ''since:''
   \<and> parseSinceDate script_env \<lparr>pending = [], clock = 2000000000\<rparr> ''1w'' = None
   \<and> fst (search script_env ''cats since:2020-01-01'' (no_opts\<lparr>since := Some ''1w''\<rparr>)
        (start_state [ok_response (page_of [raw_tweet ''1'' ''1999999999'', raw_tweet ''2'' ''5''] False [])]))
      = Inr [script_tweet ''1'' ''1999999999'', script_tweet ''2'' ''5'']
   \<and> Date_parse script_env (created_at (script_tweet ''2'' ''5'')) = Some 5
   \<and> (5::int) < 2000000000 - 7 * 86400000"
  by (simp add: run_defs since_defs)

lemma search_without_ceiling:
  "search env query opts s =
     (case search env query (opts\<lparr>maxResults := None\<rparr>) s of
        (Inl e, st) \<Rightarrow> (Inl e, st)
      | (Inr full, st) \<Rightarrow> (Inr (max_results_cut opts full), st))"
  by (simp add: search_def fullQuery_def since_filter_def since_given_def max_results_cut_def
      split: prod.splits sum.splits)

text \<open>
  C4, as the code has it.  When \<^verbatim>\<open>opts.maxResults\<close> is a positive integer \<open>n\<close>, \<open>search\<close>
  returns the first \<open>n\<close> records, in their order, of what the same call returns
  without a ceiling, that is of the accumulated and recency-filtered sequence of all
  pages; these are \<open>n\<close> records when there are at least \<open>n\<close>, and all of them
  otherwise.  The ceiling changes neither the calls made nor a failure.
\<close>

theorem max_results_cuts_final_sequence:
  assumes "maxResults opts = Some n" and "0 < n"
  shows "(search env query (opts\<lparr>maxResults := None\<rparr>) s = (Inr full, st)
            \<longrightarrow> search env query opts s = (Inr (take (nat n) full), st)
                \<and> int (length (take (nat n) full)) = min n (int (length full)))
       \<and> (search env query (opts\<lparr>maxResults := None\<rparr>) s = (Inl e, st)
            \<longrightarrow> search env query opts s = (Inl e, st))"
proof -
  have cut: "max_results_cut opts full = take (nat n) full"
    using assms by (simp add: max_results_cut_def slice0_def)
  have len: "int (length (take (nat n) full)) = min n (int (length full))"
    using assms(2) by (auto simp: min_def)
  show ?thesis
    using cut len by (simp add: search_without_ceiling [of env query opts s])
qed

theorem max_results_cuts_final_sequence_witness:
  "maxResults (no_opts\<lparr>maxResults := Some 2\<rparr>) = Some 2 \<and> (0::int) < 2
   \<and> fst (search script_env ''cats'' ((no_opts\<lparr>maxResults := Some 2\<rparr>)\<lparr>maxResults := None\<rparr>)
        (start_state [ok_response (page_of [raw_tweet ''1'' ''7'', raw_tweet ''2'' ''5'', raw_tweet ''3'' ''6''] False [])]))
      = Inr [script_tweet ''1'' ''7'', script_tweet ''2'' ''5'', script_tweet ''3'' ''6'']
   \<and> fst (search script_env ''cats'' (no_opts\<lparr>maxResults := Some 2\<rparr>)
        (start_state [ok_response (page_of [raw_tweet ''1'' ''7'', raw_tweet ''2'' ''5'', raw_tweet ''3'' ''6''] False [])]))
      = Inr [script_tweet ''1'' ''7'', script_tweet ''2'' ''5'']"
  using max_results_cuts_final_sequence
    [where opts = "no_opts\<lparr>maxResults := Some 2\<rparr>" and n = 2 and env = script_env and query = "''cats''"
       and s = "start_state [ok_response (page_of [raw_tweet ''1'' ''7'', raw_tweet ''2'' ''5'', raw_tweet ''3'' ''6''] False [])]"
       and full = "[script_tweet ''1'' ''7'', script_tweet ''2'' ''5'', script_tweet ''3'' ''6'']"
       and st = "\<lparr>world = \<lparr>pending = [], clock = 2000000000\<rparr>,
          trace = [Call ''/twitter/tweet/advanced_search''
                     [(''query'', JStr ''cats''), (''queryType'', JStr ''Top'')]
                     (Inr (page_of [raw_tweet ''1'' ''7'', raw_tweet ''2'' ''5'', raw_tweet ''3'' ''6''] False []))]\<rparr>"]
  by (simp add: run_defs)

text \<open>
  The sequence is not always cut to exactly \<^verbatim>\<open>maxResults\<close> records: with a ceiling of
  0 both records of the page are returned, and with a ceiling of 5 the two records
  there are.
\<close>

theorem max_results_exactly_counterexample:
  "fst (search script_env ''cats'' (no_opts\<lparr>maxResults := Some 0\<rparr>)
        (start_state [ok_response (page_of [raw_tweet ''1'' ''7'', raw_tweet ''2'' ''5''] False [])]))
      = Inr [script_tweet ''1'' ''7'', script_tweet ''2'' ''5'']
   \<and> fst (search script_env ''cats'' (no_opts\<lparr>maxResults := Some 5\<rparr>)
        (start_state [ok_response (page_of [raw_tweet ''1'' ''7'', raw_tweet ''2'' ''5''] False [])]))
      = Inr [script_tweet ''1'' ''7'', script_tweet ''2'' ''5'']"
  by (simp add: run_defs)

text \<open>
  C3, on the cache store as the spec describes it.  \<open>set\<close> followed by \<open>get\<close> of the
  same query and parameters returns the records that were stored when the time
  between the two is at most the TTL.  \<open>get\<close> returns the stored records of a readable
  entry whose age is at most the TTL; it returns nothing when there is no entry, when
  the payload is unreadable, and when the age exceeds the TTL.  Without a TTL, 15
  minutes are used.
\<close>

theorem cache_round_trip:
  "(now - wrote \<le> ttl \<longrightarrow>
      cache_get key_of (cache_set key_of store wrote query ps records) now query ps (Some ttl) = Some records)
   \<and> (store (key_of query ps) = Some e \<and> payload e = Records rs \<and> now - written_at e \<le> ttl \<longrightarrow>
      cache_get key_of store now query ps (Some ttl) = Some rs)
   \<and> (store (key_of query ps) = None \<longrightarrow> cache_get key_of store now query ps (Some ttl) = None)
   \<and> (store (key_of query ps) = Some e \<and> payload e = Corrupt \<longrightarrow>
      cache_get key_of store now query ps (Some ttl) = None)
   \<and> (store (key_of query ps) = Some e \<and> ttl < now - written_at e \<longrightarrow>
      cache_get key_of store now query ps (Some ttl) = None)
   \<and> cache_get key_of store now query ps None = cache_get key_of store now query ps (Some 900000)"
  by (simp add: cache_get_def cache_set_def DEFAULT_TTL_MS_def split: option.splits)

theorem cache_round_trip_witness:
  "(1010 - 1000 \<le> (3600000::int))
   \<and> cache_get (\<lambda>q p. q @ p) (cache_set (\<lambda>q p. q @ p) Map.empty 1000 ''test query'' ''params=1''
        [script_tweet ''1'' [], script_tweet ''2'' []]) 1010 ''test query'' ''params=1'' (Some 3600000)
      = Some [script_tweet ''1'' [], script_tweet ''2'' []]
   \<and> (Map.empty :: string \<rightharpoonup> cache_entry) (''nonexistent query'' @ ''params=1'') = None
   \<and> cache_get (\<lambda>q p. q @ p) Map.empty 1010 ''nonexistent query'' ''params=1'' (Some 3600000) = None
   \<and> [''test query'' @ ''params=1'' \<mapsto> \<lparr>payload = Records [script_tweet ''1'' []], written_at = 1000\<rparr>]
        (''test query'' @ ''params=1'') = Some \<lparr>payload = Records [script_tweet ''1'' []], written_at = 1000\<rparr>
   \<and> (1::int) < 1010 - written_at \<lparr>payload = Records [script_tweet ''1'' []], written_at = 1000\<rparr>
   \<and> cache_get (\<lambda>q p. q @ p)
        [''test query'' @ ''params=1'' \<mapsto> \<lparr>payload = Records [script_tweet ''1'' []], written_at = 1000\<rparr>]
        1010 ''test query'' ''params=1'' (Some 1) = None
   \<and> cache_get (\<lambda>q p. q @ p)
        [''test query'' @ ''params=1'' \<mapsto> \<lparr>payload = Records [script_tweet ''1'' []], written_at = 1000\<rparr>]
        1010 ''test query'' ''params=1'' (Some 3600000) = Some [script_tweet ''1'' []]
   \<and> cache_get (\<lambda>q p. q @ p)
        [''test query'' @ ''params=1'' \<mapsto> \<lparr>payload = Corrupt, written_at = 1000\<rparr>]
        1010 ''test query'' ''params=1'' (Some 3600000) = None"
  using cache_round_trip
    [where now = 1010 and wrote = 1000 and ttl = 3600000 and key_of = "\<lambda>q p. q @ p"
       and store = Map.empty and query = "''test query''" and ps = "''params=1''"
       and records = "[script_tweet ''1'' [], script_tweet ''2'' []]"]
    cache_round_trip
    [where now = 1010 and ttl = 3600000 and key_of = "\<lambda>q p. q @ p"
       and store = Map.empty and query = "''nonexistent query''" and ps = "''params=1''"]
    cache_round_trip
    [where now = 1010 and ttl = 1 and key_of = "\<lambda>q p. q @ p"
       and store = "[''test query'' @ ''params=1'' \<mapsto> \<lparr>payload = Records [script_tweet ''1'' []], written_at = 1000\<rparr>]"
       and query = "''test query''" and ps = "''params=1''"
       and e = "\<lparr>payload = Records [script_tweet ''1'' []], written_at = 1000\<rparr>"]
    cache_round_trip
    [where now = 1010 and ttl = 3600000 and key_of = "\<lambda>q p. q @ p"
       and store = "[''test query'' @ ''params=1'' \<mapsto> \<lparr>payload = Records [script_tweet ''1'' []], written_at = 1000\<rparr>]"
       and query = "''test query''" and ps = "''params=1''"
       and e = "\<lparr>payload = Records [script_tweet ''1'' []], written_at = 1000\<rparr>"
       and rs = "[script_tweet ''1'' []]"]
    cache_round_trip
    [where now = 1010 and ttl = 3600000 and key_of = "\<lambda>q p. q @ p"
       and store = "[''test query'' @ ''params=1'' \<mapsto> \<lparr>payload = Corrupt, written_at = 1000\<rparr>]"
       and query = "''test query''" and ps = "''params=1''"
       and e = "\<lparr>payload = Corrupt, written_at = 1000\<rparr>"]
  by (simp add: cache_get_def cache_set_def)

section \<open>Example runs\<close>

lemma three_page_search_example:
  "search_events script_env ''cats'' (no_opts\<lparr>pages := Some 3\<rparr>)
     (start_state [ok_response (page_of [raw_tweet ''1'' ''7''] True ''c1''),
                   ok_response (page_of [raw_tweet ''2'' ''5''] True ''c2''),
                   ok_response (page_of [raw_tweet ''3'' ''6''] True ''c3''),
                   ok_response (page_of [raw_tweet ''4'' ''8''] False [])])
   = [Call ''/twitter/tweet/advanced_search'' [(''query'', JStr ''cats''), (''queryType'', JStr ''Top'')]
        (Inr (page_of [raw_tweet ''1'' ''7''] True ''c1'')),
      Sleep 200,
      Call ''/twitter/tweet/advanced_search''
        [(''query'', JStr ''cats''), (''queryType'', JStr ''Top''), (''cursor'', JStr ''c1'')]
        (Inr (page_of [raw_tweet ''2'' ''5''] True ''c2'')),
      Sleep 200,
      Call ''/twitter/tweet/advanced_search''
        [(''query'', JStr ''cats''), (''queryType'', JStr ''Top''), (''cursor'', JStr ''c2'')]
        (Inr (page_of [raw_tweet ''3'' ''6''] True ''c3''))]"
  by (simp add: run_defs)

lemma profile_example:
  "profile_events script_env ''x'' \<lparr>profile_count = Some 25, includeReplies = None\<rparr>
     (start_state [ok_response (JObj [(''data'', JObj [(''userName'', JStr ''x'')])]),
                   ok_response (page_of [raw_tweet ''1'' ''7''] True []),
                   ok_response (page_of [raw_tweet ''2'' ''5''] False [])])
   = [Call ''/twitter/user/info'' [(''userName'', JStr ''x'')]
        (Inr (JObj [(''data'', JObj [(''userName'', JStr ''x'')])])),
      Sleep 200,
      Call ''/twitter/user/last_tweets'' [(''userName'', JStr ''x''), (''includeReplies'', JStr ''false'')]
        (Inr (page_of [raw_tweet ''1'' ''7''] True []))]"
  by (simp add: run_defs set_field_def js_or_def)

end
